theory Spec2Isabelle
  imports Complex_Main "HOL-Library.Sublist"
begin

section \<open>JavaScript strings\<close>

text \<open>
  A JavaScript string is a sequence of UTF-16 code units. A code unit is modelled by its
  number; \<open>js\<close> turns an ASCII literal into the code units it denotes.
\<close>

type_synonym jsstring = "nat list"

definition js :: "string \<Rightarrow> jsstring" where
  "js s = map of_char s"

text \<open>
  \<open>LineTerminator\<close> of ECMAScript: LF, CR, LINE SEPARATOR, PARAGRAPH SEPARATOR.
  The dot of a regular expression without the \<open>s\<close> flag matches every code unit
  but these.
\<close>

definition isLineTerminator :: "nat \<Rightarrow> bool" where
  "isLineTerminator c = (c = 10 \<or> c = 13 \<or> c = 8232 \<or> c = 8233)"

text \<open>The class \<open>\d\<close>: the ASCII digits \<open>0\<close> to \<open>9\<close>.\<close>

definition isDigit :: "nat \<Rightarrow> bool" where
  "isDigit c = (48 \<le> c \<and> c \<le> 57)"

section \<open>Regular expressions\<close>

text \<open>
  The three regular expressions of \<open>api.ts\<close> are sequences of single-character atoms,
  each taken once or under a greedy quantifier, with at most one capture group:
  \<^verbatim>\<open>/Ux.*/\<close>, \<^verbatim>\<open>/Uncertain conversion rate: (\d+\.\d+)/\<close> and
  \<^verbatim>\<open>/Converted Amount: (\d+\.\d+)/\<close>.
\<close>

datatype atom = Lit nat | Digit | AnyChar

datatype node = One atom | Star atom | Plus atom | GroupOpen | GroupClose

fun atomMatches :: "atom \<Rightarrow> nat \<Rightarrow> bool" where
  "atomMatches (Lit a) c = (c = a)"
| "atomMatches Digit c = isDigit c"
| "atomMatches AnyChar c = (\<not> isLineTerminator c)"

text \<open>
  The backtracking matcher, started at one position of the input. \<open>acc\<close> is the text
  matched so far, \<open>g\<close> the length of \<open>acc\<close> when the group was opened, \<open>cap\<close>
  the text captured by the group. A greedy quantifier first takes one more character and
  gives it back when the rest of the pattern fails. The result is the matched text, the
  capture and the input left over.
\<close>

fun matchHere :: "node list \<Rightarrow> jsstring \<Rightarrow> jsstring \<Rightarrow> nat \<Rightarrow> jsstring option
    \<Rightarrow> (jsstring \<times> jsstring option \<times> jsstring) option" where
  "matchHere [] s acc g cap = Some (acc, cap, s)"
| "matchHere (One a # ns) [] acc g cap = None"
| "matchHere (One a # ns) (c # cs) acc g cap =
     (if atomMatches a c then matchHere ns cs (acc @ [c]) g cap else None)"
| "matchHere (Star a # ns) [] acc g cap = matchHere ns [] acc g cap"
| "matchHere (Star a # ns) (c # cs) acc g cap =
     (if atomMatches a c
      then (case matchHere (Star a # ns) cs (acc @ [c]) g cap of
              Some r \<Rightarrow> Some r
            | None \<Rightarrow> matchHere ns (c # cs) acc g cap)
      else matchHere ns (c # cs) acc g cap)"
| "matchHere (Plus a # ns) [] acc g cap = None"
| "matchHere (Plus a # ns) (c # cs) acc g cap =
     (if atomMatches a c then matchHere (Star a # ns) cs (acc @ [c]) g cap else None)"
| "matchHere (GroupOpen # ns) s acc g cap = matchHere ns s acc (length acc) cap"
| "matchHere (GroupClose # ns) s acc g cap = matchHere ns s acc g (Some (drop g acc))"

text \<open>
  A regular expression without the \<open>g\<close> flag matches at the leftmost position where
  the matcher succeeds, the end of the input included. \<open>skipped\<close> is the input before
  the position tried.
\<close>

record regexMatch =
  before :: jsstring
  matched :: jsstring
  group1 :: "jsstring option"
  after :: jsstring

fun regexExec :: "node list \<Rightarrow> jsstring \<Rightarrow> jsstring \<Rightarrow> regexMatch option" where
  "regexExec ns skipped [] =
     (case matchHere ns [] [] 0 None of
        Some (w, cap, rest) \<Rightarrow>
          Some \<lparr>before = skipped, matched = w, group1 = cap, after = rest\<rparr>
      | None \<Rightarrow> None)"
| "regexExec ns skipped (c # cs) =
     (case matchHere ns (c # cs) [] 0 None of
        Some (w, cap, rest) \<Rightarrow>
          Some \<lparr>before = skipped, matched = w, group1 = cap, after = rest\<rparr>
      | None \<Rightarrow> regexExec ns (skipped @ [c]) cs)"

text \<open>\<^verbatim>\<open>s.match(re)\<close>: the first match, or \<open>null\<close>.\<close>

definition stringMatch :: "jsstring \<Rightarrow> node list \<Rightarrow> regexMatch option" where
  "stringMatch s ns = regexExec ns [] s"

text \<open>\<^verbatim>\<open>s.replace(re, '')\<close>: the first match is cut out; no match leaves \<open>s\<close>.\<close>

definition stringReplaceEmpty :: "jsstring \<Rightarrow> node list \<Rightarrow> jsstring" where
  "stringReplaceEmpty s ns =
     (case regexExec ns [] s of
        None \<Rightarrow> s
      | Some m \<Rightarrow> before m @ after m)"

definition literal :: "string \<Rightarrow> node list" where
  "literal s = map (\<lambda>c. One (Lit (of_char c))) s"

definition sentinelRegex :: "node list" where
  "sentinelRegex = literal ''Ux'' @ [Star AnyChar]"

definition numberGroup :: "node list" where
  "numberGroup = [GroupOpen, Plus Digit, One (Lit 46), Plus Digit, GroupClose]"

definition rateRegex :: "node list" where
  "rateRegex = literal ''Uncertain conversion rate: '' @ numberGroup"

definition amountRegex :: "node list" where
  "amountRegex = literal ''Converted Amount: '' @ numberGroup"

section \<open>Numbers\<close>

text \<open>
  A JavaScript number is an IEEE 754 double. A double is modelled by its value: a
  rational, an infinity or \<open>NaN\<close> (the two zeros have the same value and compare
  equal). Comparisons of doubles are exact on these values.
\<close>

datatype jsnumber = NaN | NegInf | Finite rat | PosInf

text \<open>
  \<open>IsLessThan\<close> of ECMAScript on numbers: \<open>None\<close> is its result \<open>undefined\<close>,
  when an operand is \<open>NaN\<close>.
\<close>

fun isLessThan :: "jsnumber \<Rightarrow> jsnumber \<Rightarrow> bool option" where
  "isLessThan NaN y = None"
| "isLessThan x NaN = None"
| "isLessThan NegInf NegInf = Some False"
| "isLessThan NegInf y = Some True"
| "isLessThan x NegInf = Some False"
| "isLessThan PosInf y = Some False"
| "isLessThan x PosInf = Some True"
| "isLessThan (Finite a) (Finite b) = Some (a < b)"

text \<open>The operators \<^verbatim>\<open><\<close>, \<^verbatim>\<open>>\<close>, \<^verbatim>\<open><=\<close> and \<^verbatim>\<open>>=\<close>.\<close>

definition js_lt :: "jsnumber \<Rightarrow> jsnumber \<Rightarrow> bool" where
  "js_lt x y = (isLessThan x y = Some True)"

definition js_gt :: "jsnumber \<Rightarrow> jsnumber \<Rightarrow> bool" where
  "js_gt x y = (isLessThan y x = Some True)"

definition js_le :: "jsnumber \<Rightarrow> jsnumber \<Rightarrow> bool" where
  "js_le x y = (isLessThan y x = Some False)"

definition js_ge :: "jsnumber \<Rightarrow> jsnumber \<Rightarrow> bool" where
  "js_ge x y = (isLessThan x y = Some False)"

subsection \<open>The builtin \<open>parseFloat\<close>\<close>

text \<open>
  \<open>parseFloat\<close> skips leading white space and reads the longest prefix that is a
  \<open>StrDecimalLiteral\<close>: a sign, then \<open>Infinity\<close> or decimal digits with an optional
  fraction and an optional exponent. Its result is the double nearest to the decimal
  value read. The rounding of a rational to a double is not defined here: it is the
  parameter \<open>rd\<close> of every function that calls \<open>parseFloat\<close>. A numeric literal of the
  program text, such as \<^verbatim>\<open>0.85\<close>, denotes \<open>rd\<close> of its decimal value as well.
\<close>

definition isWhiteSpace :: "nat \<Rightarrow> bool" where
  "isWhiteSpace c =
     (c \<in> {9, 10, 11, 12, 13, 32, 160, 5760, 8232, 8233, 8239, 8287, 12288, 65279}
      \<or> (8192 \<le> c \<and> c \<le> 8202))"

definition startsWith :: "nat \<Rightarrow> jsstring \<Rightarrow> bool" where
  "startsWith c s = (case s of [] \<Rightarrow> False | x # _ \<Rightarrow> x = c)"

definition digitsValue :: "jsstring \<Rightarrow> nat" where
  "digitsValue ds = foldl (\<lambda>n c. 10 * n + (c - 48)) 0 ds"

definition decimalValue :: "jsstring \<Rightarrow> jsstring \<Rightarrow> rat" where
  "decimalValue d1 d2 = of_nat (digitsValue d1) + of_nat (digitsValue d2) / 10 ^ length d2"

text \<open>The factor of an \<open>ExponentPart\<close> at the head of \<open>s\<close>; \<open>1\<close> when there is none.\<close>

definition exponentFactor :: "jsstring \<Rightarrow> rat" where
  "exponentFactor s =
     (if startsWith 101 s \<or> startsWith 69 s
      then (let t = tl s;
                u = (if startsWith 45 t \<or> startsWith 43 t then tl t else t);
                ds = takeWhile isDigit u
            in if ds = [] then 1
               else if startsWith 45 t then 1 / 10 ^ digitsValue ds
               else 10 ^ digitsValue ds)
      else 1)"

definition parseFloat :: "(rat \<Rightarrow> jsnumber) \<Rightarrow> jsstring \<Rightarrow> jsnumber" where
  "parseFloat rd s =
     (let t = dropWhile isWhiteSpace s;
          neg = startsWith 45 t;
          u = (if startsWith 45 t \<or> startsWith 43 t then tl t else t)
      in if prefix (js ''Infinity'') u then (if neg then NegInf else PosInf)
         else
           (let d1 = takeWhile isDigit u;
                r1 = dropWhile isDigit u;
                d2 = (if startsWith 46 r1 then takeWhile isDigit (tl r1) else []);
                r2 = (if startsWith 46 r1 then dropWhile isDigit (tl r1) else r1);
                v = decimalValue d1 d2 * exponentFactor r2
            in if d1 = [] \<and> d2 = [] then NaN
               else rd (if neg then - v else v)))"

section \<open>Effects\<close>

text \<open>
  The observable actions of the program, in the order it performs them: HTTP requests
  (with the headers of \<open>createHeaders\<close> or with none), lines on the console with their
  arguments, and the timer of the poller with its delay in milliseconds.
\<close>

record sourceCode =
  Object :: jsstring
  Code :: jsstring
  Arguments :: jsstring
  Language :: jsstring

record taskRequest =
  Type :: jsstring
  SourceCode :: sourceCode

datatype headers = ApiHeaders | NoHeaders

datatype event =
    HttpPost jsstring taskRequest headers
  | HttpGet jsstring headers
  | ConsoleLog "jsstring list"
  | ConsoleError "jsstring list"
  | Sleep nat

text \<open>
  A call returns a value, or ends the process with an exit status (\<open>process.exit\<close>),
  or is still waiting when the replies given to the model are used up.
\<close>

datatype 'a outcome = Returned 'a | Exited nat | Pending

type_synonym 'a run = "'a outcome \<times> event list"

text \<open>Sequencing: the second call runs only when the first one returned.\<close>

definition andThen :: "'a run \<Rightarrow> ('a \<Rightarrow> 'b run) \<Rightarrow> 'b run" where
  "andThen m f =
     (case m of
        (Returned a, t) \<Rightarrow> (case f a of (r, t') \<Rightarrow> (r, t @ t'))
      | (Exited n, t) \<Rightarrow> (Exited n, t)
      | (Pending, t) \<Rightarrow> (Pending, t))"

text \<open>
  What an awaited axios call gives: the \<open>data\<close> of the response (the field read from
  it), or a rejection. Of a rejection only the value that \<open>handleApiError\<close> prints is
  kept: \<^verbatim>\<open>error.response?.data ?? error.message\<close>.
\<close>

datatype 'a reply = Resolved 'a | Rejected jsstring

section \<open>The task client (\<open>api.ts\<close>)\<close>

definition API_BASE_URL :: jsstring where
  "API_BASE_URL = js ''https://api.signaloid.io''"

definition handleApiError :: "jsstring \<Rightarrow> jsstring \<Rightarrow> 'a run" where
  "handleApiError error message = (Exited 1, [ConsoleError [message @ js '':'', error]])"

definition postTask :: "jsstring \<Rightarrow> jsstring \<Rightarrow> jsstring reply \<Rightarrow> jsstring run" where
  "postTask applicationCode args reply =
     (let taskRequest =
            \<lparr>Type = js ''SourceCode'',
             SourceCode = \<lparr>Object = js ''SourceCode'', Code = applicationCode,
                           Arguments = args, Language = js ''C''\<rparr>\<rparr>
      in andThen (Returned (), [HttpPost (API_BASE_URL @ js ''/tasks'') taskRequest ApiHeaders])
           (\<lambda>_. case reply of
                   Resolved taskID \<Rightarrow> (Returned taskID, [])
                 | Rejected error \<Rightarrow> handleApiError error (js ''Error submitting task'')))"

definition submitTask :: "jsstring \<Rightarrow> jsstring \<Rightarrow> jsstring reply \<Rightarrow> jsstring run" where
  "submitTask applicationCode args reply =
     andThen (postTask applicationCode args reply)
       (\<lambda>taskId. (Returned taskId, [ConsoleLog [js ''Task submitted. Task ID: '' @ taskId]]))"

definition statusUrl :: "jsstring \<Rightarrow> jsstring" where
  "statusUrl taskId = API_BASE_URL @ js ''/tasks/'' @ taskId"

definition fetchTaskStatus :: "jsstring \<Rightarrow> jsstring reply \<Rightarrow> jsstring run" where
  "fetchTaskStatus taskId reply =
     andThen (Returned (), [HttpGet (statusUrl taskId) ApiHeaders])
       (\<lambda>_. case reply of
               Resolved status \<Rightarrow> (Returned status, [])
             | Rejected error \<Rightarrow> handleApiError error (js ''Error checking task status''))"

text \<open>
  The poller, run against the replies that the service gives to its successive status
  queries. The loop of the source has no bound: with the replies used up the model stops
  at the query that is waiting for its reply, with outcome \<open>Pending\<close>.
\<close>

fun waitForTaskCompletion :: "jsstring \<Rightarrow> jsstring reply list \<Rightarrow> unit run" where
  "waitForTaskCompletion taskId [] = (Pending, [HttpGet (statusUrl taskId) ApiHeaders])"
| "waitForTaskCompletion taskId (reply # replies) =
     (case fetchTaskStatus taskId reply of
        (Returned status, t) \<Rightarrow>
          (if status \<in> set [js ''Cancelled'', js ''Stopped'']
           then (Exited 1, t @ [ConsoleError [js ''Task is '' @ status @ js ''.'']])
           else if status = js ''Completed''
           then (Returned (), t @ [ConsoleLog [js ''Task status: Completed'']])
           else (case waitForTaskCompletion taskId replies of
                   (r, t') \<Rightarrow>
                     (r, t @ [ConsoleLog [js ''Task status: '' @ status], Sleep 2000] @ t')))
      | (Exited n, t) \<Rightarrow> (Exited n, t)
      | (Pending, t) \<Rightarrow> (Pending, t))"

text \<open>
  What axios hands over as the \<open>data\<close> of the download: the text of the response or,
  when that text is valid JSON, the value parsed from it. A parsed value that is not a
  string has no method \<open>replace\<close>, so that \<open>stdout.replace\<close> throws a TypeError on it;
  of such a value only the message of that error is kept.
\<close>

datatype body = Text jsstring | Parsed jsstring

definition fetchOutputStream :: "jsstring \<Rightarrow> body reply \<Rightarrow> body run" where
  "fetchOutputStream outputUrl reply =
     andThen (Returned (), [HttpGet outputUrl NoHeaders])
       (\<lambda>_. case reply of
               Resolved data \<Rightarrow> (Returned data, [])
             | Rejected error \<Rightarrow> handleApiError error (js ''Error fetching output stream''))"

record conversionResult =
  rate :: jsnumber
  convertedAmount :: jsnumber

text \<open>The local constant \<open>cleanOutput\<close> of \<open>extractOutput\<close>.\<close>

definition cleanOutput :: "jsstring \<Rightarrow> jsstring" where
  "cleanOutput stdout = stringReplaceEmpty stdout sentinelRegex"

text \<open>
  \<open>m[1]\<close> of a match, given to \<open>parseFloat\<close>: a group that took no part in the match
  is \<open>undefined\<close>, which \<open>parseFloat\<close> reads as the text \<open>undefined\<close>.
\<close>

definition groupText :: "regexMatch \<Rightarrow> jsstring" where
  "groupText m = (case group1 m of Some g \<Rightarrow> g | None \<Rightarrow> js ''undefined'')"

definition extractOutput :: "(rat \<Rightarrow> jsnumber) \<Rightarrow> jsstring \<Rightarrow> conversionResult run" where
  "extractOutput rd stdout =
     (let conversionRateMatch = stringMatch (cleanOutput stdout) rateRegex;
          convertedAmountMatch = stringMatch (cleanOutput stdout) amountRegex
      in case (conversionRateMatch, convertedAmountMatch) of
           (Some m1, Some m2) \<Rightarrow>
             (Returned \<lparr>rate = parseFloat rd (groupText m1),
                        convertedAmount = parseFloat rd (groupText m2)\<rparr>, [])
         | _ \<Rightarrow>
             (Exited 1,
              [ConsoleError [js ''Failed to extract conversion rate or converted amount'']]))"

text \<open>
  The \<open>data\<close> of the outputs response, \<^verbatim>\<open>{Stdout?: <url>}\<close>: \<open>None\<close> is the field
  left out. \<^verbatim>\<open>!response.data.Stdout\<close> holds of a missing field and of the empty string.
\<close>

record outputs =
  Stdout :: "jsstring option"

definition outputsUrl :: "jsstring \<Rightarrow> jsstring" where
  "outputsUrl taskId = API_BASE_URL @ js ''/tasks/'' @ taskId @ js ''/outputs''"

definition getTaskOutput ::
    "(rat \<Rightarrow> jsnumber) \<Rightarrow> jsstring \<Rightarrow> outputs reply \<Rightarrow> body reply \<Rightarrow> conversionResult run" where
  "getTaskOutput rd taskId outputsReply streamReply =
     andThen (Returned (), [HttpGet (outputsUrl taskId) ApiHeaders])
       (\<lambda>_. case outputsReply of
               Rejected error \<Rightarrow> handleApiError error (js ''Error getting task output'')
             | Resolved data \<Rightarrow>
                 (case Stdout data of
                    None \<Rightarrow> (Exited 1, [ConsoleError [js ''No output found for the task.'']])
                  | Some url \<Rightarrow>
                      if url = []
                      then (Exited 1, [ConsoleError [js ''No output found for the task.'']])
                      else andThen (fetchOutputStream url streamReply)
                             (\<lambda>stdout. case stdout of
                                Text s \<Rightarrow> extractOutput rd s
                              | Parsed message \<Rightarrow>
                                  handleApiError message (js ''Error getting task output''))))"

section \<open>The command line (\<open>index.ts\<close>)\<close>

definition validateInput ::
    "jsstring \<Rightarrow> jsstring \<Rightarrow> jsnumber \<Rightarrow> jsnumber \<Rightarrow> jsnumber \<Rightarrow> unit run" where
  "validateInput sourceCurrency targetCurrency rateMin rateMax amount =
     (if sourceCurrency = targetCurrency
      then (Exited 1,
            [ConsoleError [js ''Error: Source and target currencies cannot be the same.'']])
      else if js_ge rateMin rateMax
      then (Exited 1,
            [ConsoleError [js ''Error: Minimum rate must be less than maximum rate.'']])
      else if js_le amount (Finite 0)
      then (Exited 1, [ConsoleError [js ''Error: Amount must be a positive number.'']])
      else if js_le rateMin (Finite 0) \<or> js_le rateMax (Finite 0)
      then (Exited 1, [ConsoleError [js ''Error: Rates must be positive numbers.'']])
      else (Returned (), []))"

text \<open>
  One run of \<open>executeTask\<close> meets one reply to the submission, the replies to the status
  queries, one reply to the outputs query and one to the download of the output stream.
\<close>

record service =
  submission :: "jsstring reply"
  statuses :: "jsstring reply list"
  outputsResponse :: "outputs reply"
  streamResponse :: "body reply"

definition executeTask ::
    "(rat \<Rightarrow> jsnumber) \<Rightarrow> jsstring \<Rightarrow> jsstring \<Rightarrow> service \<Rightarrow> conversionResult run" where
  "executeTask rd applicationCode args svc =
     andThen (submitTask applicationCode args (submission svc))
       (\<lambda>taskId. andThen (waitForTaskCompletion taskId (statuses svc))
          (\<lambda>_. getTaskOutput rd taskId (outputsResponse svc) (streamResponse svc)))"

section \<open>Facts about the matcher\<close>

lemma js_Cons: "js (c # cs) = of_char c # js cs" by (simp add: js_def)
lemma js_Nil: "js [] = []" by (simp add: js_def)
lemma length_js: "length (js l) = length l" by (simp add: js_def)

lemma digit_not_dot: "isDigit c \<Longrightarrow> c \<noteq> 46"
  by (simp add: isDigit_def)

lemma matchHere_literal:
  "matchHere (literal l @ ns) s acc g cap =
     (if prefix (js l) s then matchHere ns (drop (length l) s) (acc @ js l) g cap else None)"
proof (induction l arbitrary: s acc)
  case Nil
  then show ?case by (simp add: literal_def js_def)
next
  case (Cons c l)
  have lit: "literal (c # l) = One (Lit (of_char c)) # literal l"
    by (simp add: literal_def)
  show ?case
  proof (cases s)
    case Nil
    then show ?thesis by (simp add: lit js_Cons)
  next
    case (Cons x xs)
    then show ?thesis using Cons.IH [of xs "acc @ [x]"]
      by (auto simp add: lit js_Cons)
  qed
qed

lemma matchHere_Star_AnyChar:
  "matchHere [Star AnyChar] s acc g cap =
     Some (acc @ takeWhile (\<lambda>c. \<not> isLineTerminator c) s, cap,
           dropWhile (\<lambda>c. \<not> isLineTerminator c) s)"
  by (induction s arbitrary: acc) simp_all

lemma matchHere_Star_Digit_dot:
  "matchHere (Star Digit # One (Lit 46) # ns) s acc g cap =
     matchHere (One (Lit 46) # ns) (dropWhile isDigit s) (acc @ takeWhile isDigit s) g cap"
proof (induction s arbitrary: acc)
  case Nil
  then show ?case by simp
next
  case (Cons c cs)
  show ?case
  proof (cases "isDigit c")
    case True
    then have "matchHere (One (Lit 46) # ns) (c # cs) acc g cap = None"
      by (simp add: digit_not_dot)
    then show ?thesis using True Cons.IH [of "acc @ [c]"]
      by (simp split: option.split)
  next
    case False
    then show ?thesis by simp
  qed
qed

lemma matchHere_Star_Digit_close:
  "matchHere [Star Digit, GroupClose] s acc g cap =
     Some (acc @ takeWhile isDigit s, Some (drop g (acc @ takeWhile isDigit s)),
           dropWhile isDigit s)"
  by (induction s arbitrary: acc) (simp_all del: drop_append)

lemma matchHere_fraction:
  "matchHere [One (Lit 46), Plus Digit, GroupClose] r acc g cap =
     (if startsWith 46 r \<and> takeWhile isDigit (tl r) \<noteq> []
      then Some (acc @ [46] @ takeWhile isDigit (tl r),
                 Some (drop g (acc @ [46] @ takeWhile isDigit (tl r))),
                 dropWhile isDigit (tl r))
      else None)"
proof (cases r)
  case Nil
  then show ?thesis by (simp add: startsWith_def)
next
  case r: (Cons x xs)
  show ?thesis
  proof (cases xs)
    case Nil
    then show ?thesis using r by (simp add: startsWith_def)
  next
    case (Cons y ys)
    then show ?thesis using r
      by (simp add: startsWith_def matchHere_Star_Digit_close del: drop_append)
  qed
qed

lemma matchHere_numberGroup:
  "matchHere numberGroup s acc g cap =
     (let d1 = takeWhile isDigit s;
          r1 = dropWhile isDigit s;
          d2 = takeWhile isDigit (tl r1)
      in if d1 \<noteq> [] \<and> startsWith 46 r1 \<and> d2 \<noteq> []
         then Some (acc @ d1 @ [46] @ d2, Some (d1 @ [46] @ d2), dropWhile isDigit (tl r1))
         else None)"
proof (cases s)
  case Nil
  then show ?thesis by (simp add: numberGroup_def)
next
  case (Cons c cs)
  show ?thesis
  proof (cases "isDigit c")
    case False
    then show ?thesis using Cons by (simp add: numberGroup_def)
  next
    case True
    have "matchHere numberGroup s acc g cap =
        matchHere [One (Lit 46), Plus Digit, GroupClose] (dropWhile isDigit cs)
          (acc @ c # takeWhile isDigit cs) (length acc) cap"
      using Cons True by (simp add: numberGroup_def matchHere_Star_Digit_dot)
    then show ?thesis using Cons True
      by (simp add: matchHere_fraction Let_def)
  qed
qed


lemma matchHere_labelled:
  "matchHere (literal l @ numberGroup) s [] 0 None =
     (if prefix (js l) s
      then (let t = drop (length l) s;
                d1 = takeWhile isDigit t;
                r1 = dropWhile isDigit t;
                d2 = takeWhile isDigit (tl r1)
            in if d1 \<noteq> [] \<and> startsWith 46 r1 \<and> d2 \<noteq> []
               then Some (js l @ d1 @ [46] @ d2, Some (d1 @ [46] @ d2),
                          dropWhile isDigit (tl r1))
               else None)
      else None)"
  by (simp add: matchHere_literal matchHere_numberGroup Let_def)

lemma regexExec_SomeD:
  "regexExec ns sk s = Some m \<Longrightarrow>
     \<exists>p r. s = p @ r \<and> before m = sk @ p \<and>
           matchHere ns r [] 0 None = Some (matched m, group1 m, after m)"
proof (induction s arbitrary: sk)
  case Nil
  then show ?case by (auto split: option.splits)
next
  case (Cons c cs)
  show ?case
  proof (cases "matchHere ns (c # cs) [] 0 None")
    case None
    then have "regexExec ns (sk @ [c]) cs = Some m" using Cons.prems by simp
    from Cons.IH [OF this] obtain p r where
      "cs = p @ r" "before m = (sk @ [c]) @ p"
      "matchHere ns r [] 0 None = Some (matched m, group1 m, after m)" by blast
    then have "c # cs = (c # p) @ r \<and> before m = sk @ (c # p) \<and>
        matchHere ns r [] 0 None = Some (matched m, group1 m, after m)" by simp
    then show ?thesis by blast
  next
    case (Some a)
    then have "c # cs = [] @ (c # cs) \<and> before m = sk @ [] \<and>
        matchHere ns (c # cs) [] 0 None = Some (matched m, group1 m, after m)"
      using Cons.prems by (auto split: prod.splits)
    then show ?thesis by blast
  qed
qed

lemma regexExec_NoneD:
  "regexExec ns sk (p @ r) = None \<Longrightarrow> matchHere ns r [] 0 None = None"
proof (induction p arbitrary: sk)
  case Nil
  then show ?case by (cases r) (auto split: option.splits)
next
  case (Cons c p)
  then show ?case by (auto split: option.splits)
qed

lemma regexExec_first:
  "\<lbrakk>\<And>p' r'. p = p' @ r' \<Longrightarrow> r' \<noteq> [] \<Longrightarrow> matchHere ns (r' @ r) [] 0 None = None;
    matchHere ns r [] 0 None = Some (w, cap, rest)\<rbrakk> \<Longrightarrow>
   regexExec ns sk (p @ r) = Some \<lparr>before = sk @ p, matched = w, group1 = cap, after = rest\<rparr>"
proof (induction p arbitrary: sk)
  case Nil
  then show ?case by (cases r) simp_all
next
  case (Cons c p)
  have here: "matchHere ns ((c # p) @ r) [] 0 None = None"
    using Cons.prems(1) [of "[]" "c # p"] by simp
  have later: "\<And>p' r'. p = p' @ r' \<Longrightarrow> r' \<noteq> [] \<Longrightarrow> matchHere ns (r' @ r) [] 0 None = None"
    using Cons.prems(1) by (metis append_Cons)
  show ?case using here Cons.IH [of "sk @ [c]", OF later Cons.prems(2)] by simp
qed

section \<open>The submitter\<close>

text \<open>
  Claim C7. A submission answered with HTTP 200 and a \<open>TaskID\<close> makes \<open>submitTask\<close>
  return that \<open>TaskID\<close> as it is, after one POST of the request to \<open>/tasks\<close> and one
  confirmation line on the console that ends with the task ID.
\<close>

theorem submitTask_returns_TaskID:
  "submitTask applicationCode args (Resolved taskID) =
     (Returned taskID,
      [HttpPost (js ''https://api.signaloid.io/tasks'')
         \<lparr>Type = js ''SourceCode'',
          SourceCode = \<lparr>Object = js ''SourceCode'', Code = applicationCode,
                        Arguments = args, Language = js ''C''\<rparr>\<rparr>
         ApiHeaders,
       ConsoleLog [js ''Task submitted. Task ID: '' @ taskID]])"
  by (simp add: submitTask_def postTask_def andThen_def API_BASE_URL_def js_def)

theorem submitTask_returns_TaskID_witness:
  "fst (submitTask (js ''int main() { return 0; }'') (js ''0.85 0.90 100'')
          (Resolved (js ''12345''))) = Returned (js ''12345'')"
  using submitTask_returns_TaskID
          [of "js ''int main() { return 0; }''" "js ''0.85 0.90 100''" "js ''12345''"]
  by simp

section \<open>The output extractor\<close>

text \<open>
  Claim C4. On the text \<open>Uncertain conversion rate: 0.85\<close>, a line feed,
  \<open>Converted Amount: 85.00\<close>, \<open>extractOutput\<close> returns the record whose rate is the
  double of the literal \<open>0.85\<close> and whose converted amount is the double of \<open>85.0\<close>,
  and does nothing else.
\<close>

theorem extractOutput_round_trip:
  "extractOutput rd (js ''Uncertain conversion rate: 0.85\<newline>Converted Amount: 85.00'') =
     (Returned \<lparr>rate = rd (85 / 100), convertedAmount = rd 85\<rparr>, [])"
  by (simp add: extractOutput_def cleanOutput_def stringReplaceEmpty_def stringMatch_def
      sentinelRegex_def rateRegex_def amountRegex_def numberGroup_def literal_def js_def
      groupText_def parseFloat_def isWhiteSpace_def startsWith_def isDigit_def
      decimalValue_def digitsValue_def exponentFactor_def isLineTerminator_def)

theorem extractOutput_round_trip_witness:
  "extractOutput Finite
     (js ''Uncertain conversion rate: 0.85\<newline>Converted Amount: 85.00'') =
     (Returned \<lparr>rate = Finite (85 / 100), convertedAmount = Finite 85\<rparr>, [])"
  using extractOutput_round_trip [of Finite] by simp

text \<open>
  Claim C6. When the outputs response has no \<open>Stdout\<close> field, \<open>getTaskOutput\<close> logs
  an error and ends the process with status 1. The outputs query is its only request:
  nothing is downloaded.
\<close>

theorem getTaskOutput_missing_Stdout:
  "getTaskOutput rd taskId (Resolved \<lparr>Stdout = None\<rparr>) streamReply =
     (Exited 1,
      [HttpGet (outputsUrl taskId) ApiHeaders,
       ConsoleError [js ''No output found for the task.'']])"
  by (simp add: getTaskOutput_def andThen_def)

theorem getTaskOutput_missing_Stdout_witness:
  "fst (getTaskOutput Finite (js ''12345'') (Resolved \<lparr>Stdout = None\<rparr>)
          (Resolved (Text (js ''Uncertain conversion rate: 0.85\<newline>Converted Amount: 85.00''))))
     = Exited 1"
  using getTaskOutput_missing_Stdout
          [of Finite "js ''12345''"
              "Resolved (Text (js ''Uncertain conversion rate: 0.85\<newline>Converted Amount: 85.00''))"]
  by simp

text \<open>
  Claim C9. A \<open>Stdout\<close> field that holds the empty string is treated as a missing one:
  the run is the same, an error line and exit status 1 after the outputs query, with no
  download.
\<close>

theorem getTaskOutput_empty_Stdout:
  "getTaskOutput rd taskId (Resolved \<lparr>Stdout = Some []\<rparr>) streamReply =
     getTaskOutput rd taskId (Resolved \<lparr>Stdout = None\<rparr>) streamReply
   \<and> getTaskOutput rd taskId (Resolved \<lparr>Stdout = Some []\<rparr>) streamReply =
     (Exited 1,
      [HttpGet (outputsUrl taskId) ApiHeaders,
       ConsoleError [js ''No output found for the task.'']])"
  by (simp add: getTaskOutput_def andThen_def)

theorem getTaskOutput_empty_Stdout_witness:
  "fst (getTaskOutput Finite (js ''12345'') (Resolved \<lparr>Stdout = Some (js [])\<rparr>)
          (Resolved (Text (js ''Uncertain conversion rate: 0.85\<newline>Converted Amount: 85.00''))))
     = Exited 1"
  using getTaskOutput_empty_Stdout
          [of Finite "js ''12345''"
              "Resolved (Text (js ''Uncertain conversion rate: 0.85\<newline>Converted Amount: 85.00''))",
           THEN conjunct2]
  by (simp add: js_Nil)

section \<open>Validation of the command line\<close>

lemmas js_compare_defs = js_lt_def js_gt_def js_le_def js_ge_def

text \<open>
  Claim C8. \<open>validateInput\<close> ends the process with status 1, after one error line, when
  the currencies are equal, or \<open>rateMin >= rateMax\<close>, or \<open>amount <= 0\<close>, or a rate is
  \<open><= 0\<close>. When the currencies differ, \<open>0 < rateMin < rateMax\<close> and \<open>amount > 0\<close>, it
  returns and does nothing. The six failing calls and the passing call of the
  specification behave so.
\<close>

theorem validateInput_checks:
  "(sourceCurrency = targetCurrency \<or> js_ge rateMin rateMax \<or> js_le amount (Finite 0)
      \<or> js_le rateMin (Finite 0) \<or> js_le rateMax (Finite 0)
    \<longrightarrow> (\<exists>msg. validateInput sourceCurrency targetCurrency rateMin rateMax amount =
           (Exited 1, [ConsoleError [msg]])))
   \<and> (sourceCurrency \<noteq> targetCurrency \<and> js_lt (Finite 0) rateMin \<and> js_lt rateMin rateMax
        \<and> js_gt amount (Finite 0)
      \<longrightarrow> validateInput sourceCurrency targetCurrency rateMin rateMax amount = (Returned (), []))
   \<and> fst (validateInput (js ''USD'') (js ''USD'') (Finite 1) (Finite 2) (Finite 100)) = Exited 1
   \<and> fst (validateInput (js ''USD'') (js ''EUR'') (Finite 2) (Finite 1) (Finite 100)) = Exited 1
   \<and> fst (validateInput (js ''USD'') (js ''EUR'') (Finite 1) (Finite 2) (Finite (- 100))) = Exited 1
   \<and> fst (validateInput (js ''USD'') (js ''EUR'') (Finite 1) (Finite 2) (Finite 0)) = Exited 1
   \<and> fst (validateInput (js ''USD'') (js ''EUR'') (Finite 0) (Finite 2) (Finite 100)) = Exited 1
   \<and> fst (validateInput (js ''USD'') (js ''EUR'') (Finite 1) (Finite (- 2)) (Finite 100)) = Exited 1
   \<and> validateInput (js ''USD'') (js ''EUR'') (Finite 1) (Finite 2) (Finite 100) = (Returned (), [])"
proof -
  have fails: "sourceCurrency = targetCurrency \<or> js_ge rateMin rateMax \<or> js_le amount (Finite 0)
      \<or> js_le rateMin (Finite 0) \<or> js_le rateMax (Finite 0)
    \<longrightarrow> (\<exists>msg. validateInput sourceCurrency targetCurrency rateMin rateMax amount =
           (Exited 1, [ConsoleError [msg]]))"
    by (simp add: validateInput_def)
  have passes: "sourceCurrency \<noteq> targetCurrency \<and> js_lt (Finite 0) rateMin \<and> js_lt rateMin rateMax
        \<and> js_gt amount (Finite 0)
      \<longrightarrow> validateInput sourceCurrency targetCurrency rateMin rateMax amount = (Returned (), [])"
    by (cases rateMin; cases rateMax; cases amount)
       (auto simp add: validateInput_def js_compare_defs)
  have examples:
    "fst (validateInput (js ''USD'') (js ''USD'') (Finite 1) (Finite 2) (Finite 100)) = Exited 1"
    "fst (validateInput (js ''USD'') (js ''EUR'') (Finite 2) (Finite 1) (Finite 100)) = Exited 1"
    "fst (validateInput (js ''USD'') (js ''EUR'') (Finite 1) (Finite 2) (Finite (- 100))) = Exited 1"
    "fst (validateInput (js ''USD'') (js ''EUR'') (Finite 1) (Finite 2) (Finite 0)) = Exited 1"
    "fst (validateInput (js ''USD'') (js ''EUR'') (Finite 0) (Finite 2) (Finite 100)) = Exited 1"
    "fst (validateInput (js ''USD'') (js ''EUR'') (Finite 1) (Finite (- 2)) (Finite 100)) = Exited 1"
    "validateInput (js ''USD'') (js ''EUR'') (Finite 1) (Finite 2) (Finite 100) = (Returned (), [])"
    by (simp_all add: validateInput_def js_compare_defs js_def)
  from fails passes examples show ?thesis by blast
qed

theorem validateInput_checks_witness:
  "js_ge (Finite 2) (Finite 1)
   \<and> validateInput (js ''GBP'') (js ''EUR'') (Finite 2) (Finite 1) (Finite 5) =
       (Exited 1, [ConsoleError [js ''Error: Minimum rate must be less than maximum rate.'']])
   \<and> js ''GBP'' \<noteq> js ''EUR'' \<and> js_lt (Finite 0) (Finite (115 / 100))
   \<and> js_lt (Finite (115 / 100)) (Finite (12 / 10)) \<and> js_gt (Finite 5) (Finite 0)
   \<and> validateInput (js ''GBP'') (js ''EUR'') (Finite (115 / 100)) (Finite (12 / 10)) (Finite 5) =
       (Returned (), [])"
proof -
  have a: "js_ge (Finite 2) (Finite 1)" by (simp add: js_compare_defs)
  have b: "js ''GBP'' \<noteq> js ''EUR'' \<and> js_lt (Finite 0) (Finite (115 / 100))
     \<and> js_lt (Finite (115 / 100)) (Finite (12 / 10)) \<and> js_gt (Finite 5) (Finite 0)"
    by (simp add: js_compare_defs js_def)
  have c: "validateInput (js ''GBP'') (js ''EUR'') (Finite 2) (Finite 1) (Finite 5) =
       (Exited 1, [ConsoleError [js ''Error: Minimum rate must be less than maximum rate.'']])"
    using a validateInput_checks [of "js ''GBP''" "js ''EUR''" "Finite 2" "Finite 1" "Finite 5"]
    by (simp add: validateInput_def js_def)
  have d: "validateInput (js ''GBP'') (js ''EUR'') (Finite (115 / 100)) (Finite (12 / 10)) (Finite 5) =
       (Returned (), [])"
    using b validateInput_checks [of "js ''GBP''" "js ''EUR''" "Finite (115 / 100)" "Finite (12 / 10)" "Finite 5"]
    by blast
  from a b c d show ?thesis by blast
qed

section \<open>The status poller\<close>

lemma status_names_distinct:
  "js ''Completed'' \<noteq> js ''Cancelled''" "js ''Completed'' \<noteq> js ''Stopped''"
  "js ''Cancelled'' \<noteq> js ''Stopped''"
  by (simp_all add: js_def)

lemma waitForTaskCompletion_continue:
  "\<lbrakk>status \<noteq> js ''Completed''; status \<noteq> js ''Cancelled''; status \<noteq> js ''Stopped''\<rbrakk> \<Longrightarrow>
   waitForTaskCompletion taskId (Resolved status # replies) =
     (fst (waitForTaskCompletion taskId replies),
      [HttpGet (statusUrl taskId) ApiHeaders, ConsoleLog [js ''Task status: '' @ status],
       Sleep 2000] @ snd (waitForTaskCompletion taskId replies))"
  by (simp add: fetchTaskStatus_def andThen_def split: prod.split)

lemma waitForTaskCompletion_prefix:
  "\<forall>s\<in>set ss. s \<noteq> js ''Completed'' \<and> s \<noteq> js ''Cancelled'' \<and> s \<noteq> js ''Stopped'' \<Longrightarrow>
   waitForTaskCompletion taskId (map Resolved ss @ replies) =
     (fst (waitForTaskCompletion taskId replies),
      concat (map (\<lambda>s. [HttpGet (statusUrl taskId) ApiHeaders,
                          ConsoleLog [js ''Task status: '' @ s], Sleep 2000]) ss)
      @ snd (waitForTaskCompletion taskId replies))"
proof (induction ss)
  case Nil
  then show ?case by simp
next
  case (Cons s ss)
  then show ?case
    by (simp add: waitForTaskCompletion_continue del: waitForTaskCompletion.simps)
qed

lemma waitForTaskCompletion_Completed:
  "waitForTaskCompletion taskId (Resolved (js ''Completed'') # later) =
     (Returned (), [HttpGet (statusUrl taskId) ApiHeaders,
                    ConsoleLog [js ''Task status: Completed'']])"
  using status_names_distinct by (simp add: fetchTaskStatus_def andThen_def)

lemma waitForTaskCompletion_terminal:
  "t = js ''Cancelled'' \<or> t = js ''Stopped'' \<Longrightarrow>
   waitForTaskCompletion taskId (Resolved t # later) =
     (Exited 1, [HttpGet (statusUrl taskId) ApiHeaders,
                 ConsoleError [js ''Task is '' @ t @ js ''.'']])"
  by (auto simp add: fetchTaskStatus_def andThen_def)

text \<open>
  Claim C2. When the service answers the status queries with statuses that are none of
  \<open>Completed\<close>, \<open>Cancelled\<close>, \<open>Stopped\<close> and then with \<open>Completed\<close>, the poller
  returns. Its run is, for each status in order, one status query and one log line, with
  a timer of 2000 ms after every status but the last; so it makes as many queries as
  there are statuses. Replies after \<open>Completed\<close> are not asked for.
\<close>

theorem waitForTaskCompletion_completes:
  assumes "\<forall>s\<in>set ss. s \<noteq> js ''Completed'' \<and> s \<noteq> js ''Cancelled'' \<and> s \<noteq> js ''Stopped''"
  shows "waitForTaskCompletion taskId (map Resolved ss @ Resolved (js ''Completed'') # later) =
           (Returned (),
            concat (map (\<lambda>s. [HttpGet (statusUrl taskId) ApiHeaders,
                                ConsoleLog [js ''Task status: '' @ s], Sleep 2000]) ss)
            @ [HttpGet (statusUrl taskId) ApiHeaders, ConsoleLog [js ''Task status: Completed'']])
         \<and> length (filter (\<lambda>e. e = HttpGet (statusUrl taskId) ApiHeaders)
              (snd (waitForTaskCompletion taskId
                      (map Resolved ss @ Resolved (js ''Completed'') # later))))
           = length (ss @ [js ''Completed''])"
proof -
  have run: "waitForTaskCompletion taskId (map Resolved ss @ Resolved (js ''Completed'') # later) =
           (Returned (),
            concat (map (\<lambda>s. [HttpGet (statusUrl taskId) ApiHeaders,
                                ConsoleLog [js ''Task status: '' @ s], Sleep 2000]) ss)
            @ [HttpGet (statusUrl taskId) ApiHeaders, ConsoleLog [js ''Task status: Completed'']])"
    using waitForTaskCompletion_prefix [OF assms]
    by (simp add: waitForTaskCompletion_Completed del: waitForTaskCompletion.simps)
  have count: "length (filter (\<lambda>e. e = HttpGet (statusUrl taskId) ApiHeaders)
       (concat (map (\<lambda>s. [HttpGet (statusUrl taskId) ApiHeaders,
                            ConsoleLog [js ''Task status: '' @ s], Sleep 2000]) ss))) = length ss"
    by (induction ss) simp_all
  show ?thesis using run count by simp
qed

theorem waitForTaskCompletion_completes_witness:
  "waitForTaskCompletion (js ''12345'')
     [Resolved (js ''Queued''), Resolved (js ''InProgress''), Resolved (js ''Completed'')] =
     (Returned (),
      [HttpGet (js ''https://api.signaloid.io/tasks/12345'') ApiHeaders,
       ConsoleLog [js ''Task status: Queued''], Sleep 2000,
       HttpGet (js ''https://api.signaloid.io/tasks/12345'') ApiHeaders,
       ConsoleLog [js ''Task status: InProgress''], Sleep 2000,
       HttpGet (js ''https://api.signaloid.io/tasks/12345'') ApiHeaders,
       ConsoleLog [js ''Task status: Completed'']])"
proof -
  have h: "\<forall>s\<in>set [js ''Queued'', js ''InProgress''].
      s \<noteq> js ''Completed'' \<and> s \<noteq> js ''Cancelled'' \<and> s \<noteq> js ''Stopped''"
    by (simp add: js_def)
  show ?thesis
    using waitForTaskCompletion_completes [OF h, of "js ''12345''" "[]", THEN conjunct1]
    by (simp add: statusUrl_def API_BASE_URL_def js_def)
qed


lemma andThen_Returned: "andThen (Returned a, t) f = (fst (f a), t @ snd (f a))"
  by (simp add: andThen_def split: prod.split)

lemma andThen_Exited: "andThen (Exited n, t) f = (Exited n, t)"
  by (simp add: andThen_def)

lemma statusUrl_not_outputsUrl: "statusUrl taskId \<noteq> outputsUrl taskId"
proof
  assume "statusUrl taskId = outputsUrl taskId"
  then have "length (statusUrl taskId) = length (outputsUrl taskId)" by simp
  then show False by (simp add: statusUrl_def outputsUrl_def js_def)
qed

text \<open>
  Claim C3. When the first terminal status is \<open>Cancelled\<close> or \<open>Stopped\<close>, the poller
  logs \<open>Task is <status>.\<close> as an error right after the query that saw it and ends the
  process with status 1. \<open>executeTask\<close> ends there as well: its run holds the
  submission and the polls only, with no request to the outputs URL and no download.
\<close>

theorem waitForTaskCompletion_abandons:
  assumes "\<forall>s\<in>set ss. s \<noteq> js ''Completed'' \<and> s \<noteq> js ''Cancelled'' \<and> s \<noteq> js ''Stopped''"
    and "t = js ''Cancelled'' \<or> t = js ''Stopped''"
  shows "waitForTaskCompletion taskId (map Resolved ss @ Resolved t # later) =
           (Exited 1,
            concat (map (\<lambda>s. [HttpGet (statusUrl taskId) ApiHeaders,
                                ConsoleLog [js ''Task status: '' @ s], Sleep 2000]) ss)
            @ [HttpGet (statusUrl taskId) ApiHeaders,
               ConsoleError [js ''Task is '' @ t @ js ''.'']])
         \<and> executeTask rd applicationCode args
               \<lparr>submission = Resolved taskId,
                statuses = map Resolved ss @ Resolved t # later,
                outputsResponse = outs, streamResponse = stream\<rparr> =
           (Exited 1,
            snd (submitTask applicationCode args (Resolved taskId))
            @ concat (map (\<lambda>s. [HttpGet (statusUrl taskId) ApiHeaders,
                                  ConsoleLog [js ''Task status: '' @ s], Sleep 2000]) ss)
            @ [HttpGet (statusUrl taskId) ApiHeaders,
               ConsoleError [js ''Task is '' @ t @ js ''.'']])
         \<and> \<not> (\<exists>url h. HttpGet url h \<in> set (snd (executeTask rd applicationCode args
               \<lparr>submission = Resolved taskId,
                statuses = map Resolved ss @ Resolved t # later,
                outputsResponse = outs, streamResponse = stream\<rparr>))
               \<and> (url = outputsUrl taskId \<or> h = NoHeaders))"
proof -
  let ?polls = "concat (map (\<lambda>s. [HttpGet (statusUrl taskId) ApiHeaders,
                                ConsoleLog [js ''Task status: '' @ s], Sleep 2000]) ss)"
  let ?last = "[HttpGet (statusUrl taskId) ApiHeaders, ConsoleError [js ''Task is '' @ t @ js ''.'']]"
  let ?svc = "\<lparr>submission = Resolved taskId,
                statuses = map Resolved ss @ Resolved t # later,
                outputsResponse = outs, streamResponse = stream\<rparr>"
  have wait: "waitForTaskCompletion taskId (map Resolved ss @ Resolved t # later) =
      (Exited 1, ?polls @ ?last)"
    using waitForTaskCompletion_prefix [OF assms(1)] waitForTaskCompletion_terminal [OF assms(2)]
    by (simp del: waitForTaskCompletion.simps)
  have submit: "submitTask applicationCode args (Resolved taskId) =
      (Returned taskId, snd (submitTask applicationCode args (Resolved taskId)))"
    by (simp add: submitTask_def postTask_def andThen_def)
  have exec: "executeTask rd applicationCode args ?svc =
      (Exited 1, snd (submitTask applicationCode args (Resolved taskId)) @ ?polls @ ?last)"
  proof -
    obtain tr where tr: "submitTask applicationCode args (Resolved taskId) = (Returned taskId, tr)"
      using submit by blast
    show ?thesis
      by (simp add: executeTask_def tr andThen_Returned andThen_Exited wait
               del: waitForTaskCompletion.simps)
  qed
  have polls: "\<And>url h. HttpGet url h \<in> set ?polls \<Longrightarrow> url = statusUrl taskId \<and> h = ApiHeaders"
    by (auto split: if_splits)
  have never: "\<not> (\<exists>url h. HttpGet url h \<in> set (snd (executeTask rd applicationCode args ?svc))
               \<and> (url = outputsUrl taskId \<or> h = NoHeaders))"
  proof
    assume "\<exists>url h. HttpGet url h \<in> set (snd (executeTask rd applicationCode args ?svc))
               \<and> (url = outputsUrl taskId \<or> h = NoHeaders)"
    then obtain url h where
      mem: "HttpGet url h \<in> set (snd (submitTask applicationCode args (Resolved taskId))
              @ ?polls @ ?last)"
      and bad: "url = outputsUrl taskId \<or> h = NoHeaders"
      using exec by auto
    have "HttpGet url h \<notin> set (snd (submitTask applicationCode args (Resolved taskId)))"
      by (simp add: submitTask_def postTask_def andThen_def)
    with mem have "HttpGet url h \<in> set ?polls \<or> HttpGet url h \<in> set ?last"
      by (simp only: set_append Un_iff) blast
    moreover have "HttpGet url h \<in> set ?last \<Longrightarrow> url = statusUrl taskId \<and> h = ApiHeaders"
      by simp
    ultimately have "url = statusUrl taskId \<and> h = ApiHeaders" using polls by blast
    with bad show False using statusUrl_not_outputsUrl [of taskId] by auto
  qed
  from wait exec never show ?thesis by blast
qed

theorem waitForTaskCompletion_abandons_witness:
  "waitForTaskCompletion (js ''12345'')
     [Resolved (js ''Queued''), Resolved (js ''Stopped''), Resolved (js ''Completed'')] =
     (Exited 1,
      [HttpGet (js ''https://api.signaloid.io/tasks/12345'') ApiHeaders,
       ConsoleLog [js ''Task status: Queued''], Sleep 2000,
       HttpGet (js ''https://api.signaloid.io/tasks/12345'') ApiHeaders,
       ConsoleError [js ''Task is Stopped.'']])
   \<and> fst (executeTask Finite (js ''int main() { return 0; }'') (js ''0.85 0.90 100'')
            \<lparr>submission = Resolved (js ''12345''),
             statuses = [Resolved (js ''Queued''), Resolved (js ''Stopped''),
                         Resolved (js ''Completed'')],
             outputsResponse = Resolved \<lparr>Stdout = Some (js ''https://example.com/stdout'')\<rparr>,
             streamResponse =
               Resolved (Text (js ''Uncertain conversion rate: 0.85\<newline>Converted Amount: 85.00''))\<rparr>)
       = Exited 1"
proof -
  have h: "\<forall>s\<in>set [js ''Queued''].
      s \<noteq> js ''Completed'' \<and> s \<noteq> js ''Cancelled'' \<and> s \<noteq> js ''Stopped''"
    by (simp add: js_def)
  have t: "js ''Stopped'' = js ''Cancelled'' \<or> js ''Stopped'' = js ''Stopped''"
    by simp
  note run = waitForTaskCompletion_abandons
      [OF h t, of "js ''12345''" "[Resolved (js ''Completed'')]" Finite
         "js ''int main() { return 0; }''" "js ''0.85 0.90 100''"
         "Resolved \<lparr>Stdout = Some (js ''https://example.com/stdout'')\<rparr>"
         "Resolved (Text (js ''Uncertain conversion rate: 0.85\<newline>Converted Amount: 85.00''))"]
  have poller: "waitForTaskCompletion (js ''12345'')
     [Resolved (js ''Queued''), Resolved (js ''Stopped''), Resolved (js ''Completed'')] =
     (Exited 1,
      [HttpGet (js ''https://api.signaloid.io/tasks/12345'') ApiHeaders,
       ConsoleLog [js ''Task status: Queued''], Sleep 2000,
       HttpGet (js ''https://api.signaloid.io/tasks/12345'') ApiHeaders,
       ConsoleError [js ''Task is Stopped.'']])"
    using run [THEN conjunct1] by (simp add: statusUrl_def API_BASE_URL_def js_def)
  have whole: "fst (executeTask Finite (js ''int main() { return 0; }'') (js ''0.85 0.90 100'')
            \<lparr>submission = Resolved (js ''12345''),
             statuses = [Resolved (js ''Queued''), Resolved (js ''Stopped''),
                         Resolved (js ''Completed'')],
             outputsResponse = Resolved \<lparr>Stdout = Some (js ''https://example.com/stdout'')\<rparr>,
             streamResponse =
               Resolved (Text (js ''Uncertain conversion rate: 0.85\<newline>Converted Amount: 85.00''))\<rparr>)
       = Exited 1"
    using run [THEN conjunct2, THEN conjunct1] by simp
  from poller whole show ?thesis by blast
qed

section \<open>Facts about the patterns of the extractor\<close>

lemma startsWith_Cons: "startsWith c (x # xs) = (x = c)"
  by (simp add: startsWith_def)

lemma stringMatch_labelled_SomeD:
  assumes "stringMatch s (literal l @ numberGroup) = Some m"
  shows "\<exists>d1 d2. d1 \<noteq> [] \<and> d2 \<noteq> [] \<and> list_all isDigit d1 \<and> list_all isDigit d2 \<and>
           group1 m = Some (d1 @ [46] @ d2) \<and>
           s = before m @ js l @ d1 @ [46] @ d2 @ after m"
proof -
  from assms obtain p r where
    s: "s = p @ r" and p: "before m = p" and
    here: "matchHere (literal l @ numberGroup) r [] 0 None = Some (matched m, group1 m, after m)"
    using regexExec_SomeD [of "literal l @ numberGroup" "[]" s m]
    by (auto simp add: stringMatch_def)
  define t where "t = drop (length l) r"
  define d1 where "d1 = takeWhile isDigit t"
  define r1 where "r1 = dropWhile isDigit t"
  define d2 where "d2 = takeWhile isDigit (tl r1)"
  from here have pre: "prefix (js l) r"
    by (simp add: matchHere_labelled split: if_splits)
  from here pre have ok: "d1 \<noteq> [] \<and> startsWith 46 r1 \<and> d2 \<noteq> []"
    and res: "group1 m = Some (d1 @ [46] @ d2)" "after m = dropWhile isDigit (tl r1)"
    by (simp_all add: matchHere_labelled Let_def t_def d1_def r1_def d2_def split: if_splits)
  have r: "r = js l @ t"
    using pre by (auto simp add: prefix_def t_def length_js)
  have t: "t = d1 @ r1" by (simp add: d1_def r1_def)
  have r1: "r1 = 46 # tl r1" using ok by (cases r1) (simp_all add: startsWith_def)
  have tl: "tl r1 = d2 @ after m" by (simp add: d2_def res)
  have digits: "list_all isDigit d1 \<and> list_all isDigit d2"
    by (auto simp add: d1_def d2_def list_all_iff dest: set_takeWhileD)
  have "s = before m @ js l @ d1 @ [46] @ d2 @ after m"
    using s p r t r1 tl by (metis append_Cons append_Nil)
  with ok res digits show ?thesis by blast
qed

lemma matchHere_labelled_number:
  assumes "d \<noteq> []" "list_all isDigit d" "isDigit c"
  shows "matchHere (literal l @ numberGroup) (js l @ d @ [46, c] @ post) [] 0 None \<noteq> None"
proof -
  have not46: "\<not> isDigit 46" by (simp add: isDigit_def)
  have tw: "takeWhile isDigit (d @ 46 # c # post) = d"
    using assms(2) not46 by (simp add: list_all_iff)
  have dw: "dropWhile isDigit (d @ 46 # c # post) = 46 # c # post"
    using assms(2) not46 by (simp add: list_all_iff)
  show ?thesis
    using assms(1,3)
    by (simp add: matchHere_labelled length_js [symmetric] tw dw startsWith_def Let_def)
qed

lemma stringMatch_labelled_iff:
  "(stringMatch s (literal l @ numberGroup) \<noteq> None) =
     (\<exists>pre d c post. s = pre @ js l @ d @ [46, c] @ post \<and> d \<noteq> [] \<and>
        list_all isDigit d \<and> isDigit c)"
proof
  assume "stringMatch s (literal l @ numberGroup) \<noteq> None"
  then obtain m where "stringMatch s (literal l @ numberGroup) = Some m" by blast
  from stringMatch_labelled_SomeD [OF this] obtain d1 d2 where
    d: "d1 \<noteq> []" "d2 \<noteq> []" "list_all isDigit d1" "list_all isDigit d2"
    and s: "s = before m @ js l @ d1 @ [46] @ d2 @ after m" by blast
  from d(2) obtain c cs where d2: "d2 = c # cs" by (cases d2) auto
  have "s = before m @ js l @ d1 @ [46, c] @ (cs @ after m)" using s d2 by simp
  moreover have "isDigit c" using d(4) d2 by simp
  ultimately show "\<exists>pre d c post. s = pre @ js l @ d @ [46, c] @ post \<and> d \<noteq> [] \<and>
        list_all isDigit d \<and> isDigit c" using d(1,3) by blast
next
  assume "\<exists>pre d c post. s = pre @ js l @ d @ [46, c] @ post \<and> d \<noteq> [] \<and>
        list_all isDigit d \<and> isDigit c"
  then obtain pre d c post where
    s: "s = pre @ js l @ d @ [46, c] @ post" and d: "d \<noteq> []" "list_all isDigit d" "isDigit c"
    by blast
  show "stringMatch s (literal l @ numberGroup) \<noteq> None"
  proof
    assume "stringMatch s (literal l @ numberGroup) = None"
    then have "regexExec (literal l @ numberGroup) [] (pre @ (js l @ d @ [46, c] @ post)) = None"
      using s by (simp add: stringMatch_def)
    from regexExec_NoneD [OF this] show False
      using matchHere_labelled_number [OF d] by blast
  qed
qed

lemma parseFloat_number:
  assumes "d1 \<noteq> []" "list_all isDigit d1" "list_all isDigit d2"
  shows "parseFloat rd (d1 @ [46] @ d2) = rd (decimalValue d1 d2)"
proof -
  let ?s = "d1 @ 46 # d2"
  from assms(1) obtain x xs where d1: "d1 = x # xs" by (cases d1) auto
  have x: "isDigit x" using assms(2) d1 by simp
  have not46: "\<not> isDigit 46" by (simp add: isDigit_def)
  have ws: "dropWhile isWhiteSpace ?s = ?s"
    using x by (auto simp add: d1 isDigit_def isWhiteSpace_def)
  have sign: "startsWith 45 ?s = False" "startsWith 43 ?s = False"
    using x by (auto simp add: d1 isDigit_def startsWith_def)
  have inf: "prefix (js ''Infinity'') ?s = False"
    using x by (auto simp add: d1 js_def isDigit_def)
  have tw: "takeWhile isDigit ?s = d1"
    using assms(2) not46 by (simp add: list_all_iff)
  have dw: "dropWhile isDigit ?s = 46 # d2"
    using assms(2) not46 by (simp add: list_all_iff)
  have tw2: "takeWhile isDigit d2 = d2" "dropWhile isDigit d2 = []"
    using assms(3) by (simp_all add: list_all_iff)
  have ef: "exponentFactor [] = 1" by (simp add: exponentFactor_def startsWith_def)
  show ?thesis
    using assms(1) by (simp add: parseFloat_def Let_def ws sign inf tw dw startsWith_Cons tw2 ef)
qed


lemma matchHere_sentinel:
  "matchHere sentinelRegex s [] 0 None =
     (if prefix (js ''Ux'') s
      then Some (js ''Ux'' @ takeWhile (\<lambda>c. \<not> isLineTerminator c) (drop 2 s), None,
                 dropWhile (\<lambda>c. \<not> isLineTerminator c) (drop 2 s))
      else None)"
  by (simp add: sentinelRegex_def matchHere_literal matchHere_Star_AnyChar numeral_2_eq_2)

lemma cleanOutput_no_sentinel:
  assumes "\<not> sublist (js ''Ux'') s"
  shows "cleanOutput s = s"
proof (cases "regexExec sentinelRegex [] s")
  case None
  then show ?thesis by (simp add: cleanOutput_def stringReplaceEmpty_def)
next
  case (Some m)
  from regexExec_SomeD [OF this] obtain p r where
    s: "s = p @ r" and "matchHere sentinelRegex r [] 0 None \<noteq> None" by auto
  then have "prefix (js ''Ux'') r" by (simp add: matchHere_sentinel split: if_splits)
  then have "sublist (js ''Ux'') s" using s by (auto simp add: prefix_def sublist_def)
  with assms show ?thesis by simp
qed

lemma cleanOutput_first_sentinel:
  assumes "\<not> sublist (js ''Ux'') (pre @ js ''U'')"
  shows "cleanOutput (pre @ js ''Ux'' @ rest) =
           pre @ dropWhile (\<lambda>c. \<not> isLineTerminator c) rest"
proof -
  have earlier: "matchHere sentinelRegex (r' @ js ''Ux'' @ rest) [] 0 None = None"
    if "pre = p' @ r'" "r' \<noteq> []" for p' r'
  proof (rule ccontr)
    assume "matchHere sentinelRegex (r' @ js ''Ux'' @ rest) [] 0 None \<noteq> None"
    then have pr: "prefix [85, 120] (r' @ 85 # 120 # rest)"
      by (simp add: matchHere_sentinel js_def split: if_splits)
    from that(2) obtain a r'' where r': "r' = a # r''" by (cases r') auto
    from pr r' have a: "a = 85" and nxt: "prefix [120] (r'' @ 85 # 120 # rest)" by simp_all
    from nxt obtain r3 where r'': "r'' = 120 # r3" by (cases r'') auto
    have "pre @ [85] = p' @ [85, 120] @ (r3 @ [85])" using that(1) r' a r'' by simp
    then have "sublist [85, 120] (pre @ [85])" unfolding sublist_def by blast
    with assms show False by (simp add: js_def)
  qed
  have here: "matchHere sentinelRegex (js ''Ux'' @ rest) [] 0 None =
      Some (js ''Ux'' @ takeWhile (\<lambda>c. \<not> isLineTerminator c) rest, None,
            dropWhile (\<lambda>c. \<not> isLineTerminator c) rest)"
    by (simp add: matchHere_sentinel js_def)
  have "regexExec sentinelRegex [] (pre @ (js ''Ux'' @ rest)) =
      Some \<lparr>before = [] @ pre,
            matched = js ''Ux'' @ takeWhile (\<lambda>c. \<not> isLineTerminator c) rest,
            group1 = None, after = dropWhile (\<lambda>c. \<not> isLineTerminator c) rest\<rparr>"
    using earlier here by (rule regexExec_first)
  then show ?thesis by (simp add: cleanOutput_def stringReplaceEmpty_def)
qed

subsection \<open>The leftmost number after a label\<close>

lemma takeWhile_after_dropWhile: "takeWhile P (dropWhile P xs) = []"
  by (induction xs) simp_all

lemma no_digit_ahead: "takeWhile isDigit post = [] \<Longrightarrow> dropWhile isDigit post = post"
  by (cases post) (simp_all split: if_splits)

lemma matchHere_labelled_SomeD:
  assumes "matchHere (literal l @ numberGroup) r [] 0 None = Some (w, cap, rest)"
  shows "\<exists>d1 d2. d1 \<noteq> [] \<and> d2 \<noteq> [] \<and> list_all isDigit d1 \<and> list_all isDigit d2 \<and>
           r = js l @ d1 @ [46] @ d2 @ rest \<and> w = js l @ d1 @ [46] @ d2 \<and>
           cap = Some (d1 @ [46] @ d2) \<and> takeWhile isDigit rest = []"
proof -
  define t where "t = drop (length l) r"
  define d1 where "d1 = takeWhile isDigit t"
  define r1 where "r1 = dropWhile isDigit t"
  define d2 where "d2 = takeWhile isDigit (tl r1)"
  from assms have pre: "prefix (js l) r"
    by (simp add: matchHere_labelled split: if_splits)
  from assms pre have ok: "d1 \<noteq> [] \<and> startsWith 46 r1 \<and> d2 \<noteq> []"
    and res: "w = js l @ d1 @ [46] @ d2" "cap = Some (d1 @ [46] @ d2)"
      "rest = dropWhile isDigit (tl r1)"
    by (simp_all add: matchHere_labelled Let_def t_def d1_def r1_def d2_def split: if_splits)
  have r: "r = js l @ t"
    using pre by (auto simp add: prefix_def t_def length_js)
  have t: "t = d1 @ r1" by (simp add: d1_def r1_def)
  have r1: "r1 = 46 # tl r1" using ok by (cases r1) (simp_all add: startsWith_def)
  have tl: "tl r1 = d2 @ rest" by (simp add: d2_def res)
  have digits: "list_all isDigit d1 \<and> list_all isDigit d2"
    by (auto simp add: d1_def d2_def list_all_iff dest: set_takeWhileD)
  have "r = js l @ d1 @ [46] @ d2 @ rest"
    using r t r1 tl by (metis append_Cons append_Nil)
  moreover have "takeWhile isDigit rest = []"
    by (simp add: res takeWhile_after_dropWhile)
  ultimately show ?thesis using ok res digits by blast
qed

lemma matchHere_labelled_exact:
  assumes "d1 \<noteq> []" "d2 \<noteq> []" "list_all isDigit d1" "list_all isDigit d2"
    and "takeWhile isDigit post = []"
  shows "matchHere (literal l @ numberGroup) (js l @ d1 @ [46] @ d2 @ post) [] 0 None =
           Some (js l @ d1 @ [46] @ d2, Some (d1 @ [46] @ d2), post)"
proof -
  have not46: "\<not> isDigit 46" by (simp add: isDigit_def)
  have tw: "takeWhile isDigit (d1 @ 46 # d2 @ post) = d1"
    using assms(3) not46 by (simp add: list_all_iff)
  have dw: "dropWhile isDigit (d1 @ 46 # d2 @ post) = 46 # d2 @ post"
    using assms(3) not46 by (simp add: list_all_iff)
  have tw2: "takeWhile isDigit (d2 @ post) = d2"
    using assms(4,5) by (simp add: list_all_iff)
  have dw2: "dropWhile isDigit (d2 @ post) = post"
    using assms(4) no_digit_ahead [OF assms(5)] by (simp add: list_all_iff)
  show ?thesis
    using assms(1,2)
    by (simp add: matchHere_labelled length_js [symmetric] tw dw tw2 dw2 startsWith_def Let_def)
qed

lemma regexExec_SomeD_first:
  "regexExec ns sk s = Some m \<Longrightarrow>
     \<exists>p r. s = p @ r \<and> before m = sk @ p \<and>
           matchHere ns r [] 0 None = Some (matched m, group1 m, after m) \<and>
           (\<forall>p' r'. p = p' @ r' \<longrightarrow> r' \<noteq> [] \<longrightarrow> matchHere ns (r' @ r) [] 0 None = None)"
proof (induction s arbitrary: sk)
  case Nil
  then show ?case by (auto split: option.splits)
next
  case (Cons c cs)
  show ?case
  proof (cases "matchHere ns (c # cs) [] 0 None")
    case None
    then have "regexExec ns (sk @ [c]) cs = Some m" using Cons.prems by simp
    from Cons.IH [OF this] obtain p r where
      cs: "cs = p @ r" and b: "before m = (sk @ [c]) @ p" and
      here: "matchHere ns r [] 0 None = Some (matched m, group1 m, after m)" and
      earlier: "\<forall>p' r'. p = p' @ r' \<longrightarrow> r' \<noteq> [] \<longrightarrow> matchHere ns (r' @ r) [] 0 None = None"
      by blast
    have "\<forall>p' r'. c # p = p' @ r' \<longrightarrow> r' \<noteq> [] \<longrightarrow> matchHere ns (r' @ r) [] 0 None = None"
    proof (intro allI impI)
      fix p' r'
      assume split: "c # p = p' @ r'" and ne: "r' \<noteq> []"
      show "matchHere ns (r' @ r) [] 0 None = None"
      proof (cases p')
        case Nil
        then have "r' @ r = c # cs" using split cs by simp
        then show ?thesis using None by simp
      next
        case (Cons a p'')
        then have "p = p'' @ r'" using split by simp
        then show ?thesis using earlier ne by blast
      qed
    qed
    moreover have "c # cs = (c # p) @ r \<and> before m = sk @ (c # p)" using cs b by simp
    ultimately show ?thesis using here by blast
  next
    case (Some a)
    then have "c # cs = [] @ (c # cs) \<and> before m = sk @ [] \<and>
        matchHere ns (c # cs) [] 0 None = Some (matched m, group1 m, after m)"
      using Cons.prems by (auto split: prod.splits)
    then show ?thesis by blast
  qed
qed

lemma stringMatch_first_SomeD:
  assumes "stringMatch s (literal l @ numberGroup) = Some m"
  shows "\<exists>d1 d2. s = before m @ js l @ d1 @ [46] @ d2 @ after m \<and>
           d1 \<noteq> [] \<and> d2 \<noteq> [] \<and> list_all isDigit d1 \<and> list_all isDigit d2 \<and>
           takeWhile isDigit (after m) = [] \<and>
           (\<nexists>p e c q. s = p @ js l @ e @ [46, c] @ q \<and> e \<noteq> [] \<and> list_all isDigit e \<and>
              isDigit c \<and> length p < length (before m)) \<and>
           matched m = js l @ d1 @ [46] @ d2 \<and> group1 m = Some (d1 @ [46] @ d2)"
proof -
  from assms obtain pre r where
    s: "s = pre @ r" and b: "before m = pre" and
    here: "matchHere (literal l @ numberGroup) r [] 0 None = Some (matched m, group1 m, after m)"
    and earlier: "\<forall>p' r'. pre = p' @ r' \<longrightarrow> r' \<noteq> [] \<longrightarrow>
        matchHere (literal l @ numberGroup) (r' @ r) [] 0 None = None"
    using regexExec_SomeD_first [of "literal l @ numberGroup" "[]" s m]
    by (auto simp add: stringMatch_def)
  from matchHere_labelled_SomeD [OF here] obtain d1 d2 where
    d: "d1 \<noteq> []" "d2 \<noteq> []" "list_all isDigit d1" "list_all isDigit d2"
    and r: "r = js l @ d1 @ [46] @ d2 @ after m"
    and res: "matched m = js l @ d1 @ [46] @ d2" "group1 m = Some (d1 @ [46] @ d2)"
      "takeWhile isDigit (after m) = []"
    by blast
  have first: "\<nexists>p e c q. s = p @ js l @ e @ [46, c] @ q \<and> e \<noteq> [] \<and> list_all isDigit e \<and>
              isDigit c \<and> length p < length (before m)"
  proof
    assume "\<exists>p e c q. s = p @ js l @ e @ [46, c] @ q \<and> e \<noteq> [] \<and> list_all isDigit e \<and>
              isDigit c \<and> length p < length (before m)"
    then obtain p e c q where
      sp: "s = p @ js l @ e @ [46, c] @ q" and e: "e \<noteq> []" "list_all isDigit e" "isDigit c"
      and len: "length p < length pre" using b by blast
    from sp s have "p @ (js l @ e @ [46, c] @ q) = pre @ r" by simp
    with len obtain r' where split: "pre = p @ r'" and rest: "js l @ e @ [46, c] @ q = r' @ r"
      by (auto simp add: append_eq_append_conv2)
    from split len have "r' \<noteq> []" by auto
    with earlier split have "matchHere (literal l @ numberGroup) (r' @ r) [] 0 None = None"
      by blast
    then show False using matchHere_labelled_number [OF e, of l q] rest by simp
  qed
  show ?thesis using s b r d res first by blast
qed

lemma stringMatch_first_SomeI:
  assumes "s = pre @ js l @ d1 @ [46] @ d2 @ post"
    and "d1 \<noteq> []" "d2 \<noteq> []" "list_all isDigit d1" "list_all isDigit d2"
    and "takeWhile isDigit post = []"
    and "\<nexists>p e c q. s = p @ js l @ e @ [46, c] @ q \<and> e \<noteq> [] \<and> list_all isDigit e \<and>
           isDigit c \<and> length p < length pre"
  shows "stringMatch s (literal l @ numberGroup) =
           Some \<lparr>before = pre, matched = js l @ d1 @ [46] @ d2,
                 group1 = Some (d1 @ [46] @ d2), after = post\<rparr>"
proof -
  let ?r = "js l @ d1 @ [46] @ d2 @ post"
  have earlier: "matchHere (literal l @ numberGroup) (r' @ ?r) [] 0 None = None"
    if "pre = p' @ r'" "r' \<noteq> []" for p' r'
  proof (cases "matchHere (literal l @ numberGroup) (r' @ ?r) [] 0 None")
    case None
    then show ?thesis .
  next
    case (Some a)
    obtain w cap rest where a: "a = (w, cap, rest)" by (cases a) auto
    from matchHere_labelled_SomeD [OF Some [unfolded a]] obtain e1 e2 where
      e: "e1 \<noteq> []" "e2 \<noteq> []" "list_all isDigit e1" "list_all isDigit e2"
      and eq: "r' @ ?r = js l @ e1 @ [46] @ e2 @ rest" by blast
    from e(2) obtain c cs where e2: "e2 = c # cs" by (cases e2) auto
    have "s = p' @ js l @ e1 @ [46, c] @ (cs @ rest)"
      using assms(1) that(1) eq e2 by simp
    moreover have "isDigit c" using e(4) e2 by simp
    moreover have "length p' < length pre" using that by simp
    ultimately show ?thesis using assms(7) e(1,3) by blast
  qed
  have here: "matchHere (literal l @ numberGroup) ?r [] 0 None =
      Some (js l @ d1 @ [46] @ d2, Some (d1 @ [46] @ d2), post)"
    using assms(2-6) by (rule matchHere_labelled_exact)
  have "regexExec (literal l @ numberGroup) [] (pre @ ?r) =
      Some \<lparr>before = [] @ pre, matched = js l @ d1 @ [46] @ d2,
            group1 = Some (d1 @ [46] @ d2), after = post\<rparr>"
    using earlier here by (rule regexExec_first)
  then show ?thesis using assms(1) by (simp add: stringMatch_def)
qed


lemma extractOutput_returns_iff:
  "(extractOutput rd stdout = (Returned r, t)) =
     (\<exists>pre d1 d2 post pre' e1 e2 post'.
        cleanOutput stdout = pre @ js ''Uncertain conversion rate: '' @ d1 @ [46] @ d2 @ post
        \<and> d1 \<noteq> [] \<and> d2 \<noteq> [] \<and> list_all isDigit d1 \<and> list_all isDigit d2
        \<and> takeWhile isDigit post = []
        \<and> (\<nexists>p e c q.
              cleanOutput stdout = p @ js ''Uncertain conversion rate: '' @ e @ [46, c] @ q
              \<and> e \<noteq> [] \<and> list_all isDigit e \<and> isDigit c \<and> length p < length pre)
        \<and> cleanOutput stdout = pre' @ js ''Converted Amount: '' @ e1 @ [46] @ e2 @ post'
        \<and> e1 \<noteq> [] \<and> e2 \<noteq> [] \<and> list_all isDigit e1 \<and> list_all isDigit e2
        \<and> takeWhile isDigit post' = []
        \<and> (\<nexists>p e c q.
              cleanOutput stdout = p @ js ''Converted Amount: '' @ e @ [46, c] @ q
              \<and> e \<noteq> [] \<and> list_all isDigit e \<and> isDigit c \<and> length p < length pre')
        \<and> r = \<lparr>rate = rd (decimalValue d1 d2), convertedAmount = rd (decimalValue e1 e2)\<rparr>
        \<and> t = [])"
  (is "?returns = ?places")
proof
  assume ret: ?returns
  then obtain m1 m2 where
    m1: "stringMatch (cleanOutput stdout) rateRegex = Some m1" and
    m2: "stringMatch (cleanOutput stdout) amountRegex = Some m2"
    by (auto simp add: extractOutput_def split: option.splits)
  from stringMatch_first_SomeD [OF m1 [unfolded rateRegex_def]] obtain d1 d2 where
    rt: "cleanOutput stdout =
           before m1 @ js ''Uncertain conversion rate: '' @ d1 @ [46] @ d2 @ after m1"
      "d1 \<noteq> []" "d2 \<noteq> []" "list_all isDigit d1" "list_all isDigit d2"
      "takeWhile isDigit (after m1) = []"
      "\<nexists>p e c q.
         cleanOutput stdout = p @ js ''Uncertain conversion rate: '' @ e @ [46, c] @ q
         \<and> e \<noteq> [] \<and> list_all isDigit e \<and> isDigit c \<and> length p < length (before m1)"
      "group1 m1 = Some (d1 @ [46] @ d2)"
    by blast
  from stringMatch_first_SomeD [OF m2 [unfolded amountRegex_def]] obtain e1 e2 where
    am: "cleanOutput stdout =
           before m2 @ js ''Converted Amount: '' @ e1 @ [46] @ e2 @ after m2"
      "e1 \<noteq> []" "e2 \<noteq> []" "list_all isDigit e1" "list_all isDigit e2"
      "takeWhile isDigit (after m2) = []"
      "\<nexists>p e c q.
         cleanOutput stdout = p @ js ''Converted Amount: '' @ e @ [46, c] @ q
         \<and> e \<noteq> [] \<and> list_all isDigit e \<and> isDigit c \<and> length p < length (before m2)"
      "group1 m2 = Some (e1 @ [46] @ e2)"
    by blast
  have "r = \<lparr>rate = rd (decimalValue d1 d2), convertedAmount = rd (decimalValue e1 e2)\<rparr>
      \<and> t = []"
    using ret m1 m2 rt(8) am(8)
      parseFloat_number [OF rt(2,4,5)] parseFloat_number [OF am(2,4,5)]
    by (simp add: extractOutput_def groupText_def)
  with rt(1-7) am(1-7) show ?places by blast
next
  assume ?places
  then obtain pre d1 d2 post pre' e1 e2 post' where
    rt: "cleanOutput stdout = pre @ js ''Uncertain conversion rate: '' @ d1 @ [46] @ d2 @ post"
      "d1 \<noteq> []" "d2 \<noteq> []" "list_all isDigit d1" "list_all isDigit d2"
      "takeWhile isDigit post = []"
      "\<nexists>p e c q.
         cleanOutput stdout = p @ js ''Uncertain conversion rate: '' @ e @ [46, c] @ q
         \<and> e \<noteq> [] \<and> list_all isDigit e \<and> isDigit c \<and> length p < length pre"
    and am: "cleanOutput stdout = pre' @ js ''Converted Amount: '' @ e1 @ [46] @ e2 @ post'"
      "e1 \<noteq> []" "e2 \<noteq> []" "list_all isDigit e1" "list_all isDigit e2"
      "takeWhile isDigit post' = []"
      "\<nexists>p e c q.
         cleanOutput stdout = p @ js ''Converted Amount: '' @ e @ [46, c] @ q
         \<and> e \<noteq> [] \<and> list_all isDigit e \<and> isDigit c \<and> length p < length pre'"
    and r: "r = \<lparr>rate = rd (decimalValue d1 d2), convertedAmount = rd (decimalValue e1 e2)\<rparr>"
      "t = []"
    by blast
  have m1: "stringMatch (cleanOutput stdout) rateRegex =
      Some \<lparr>before = pre, matched = js ''Uncertain conversion rate: '' @ d1 @ [46] @ d2,
            group1 = Some (d1 @ [46] @ d2), after = post\<rparr>"
    unfolding rateRegex_def using rt by (rule stringMatch_first_SomeI)
  have m2: "stringMatch (cleanOutput stdout) amountRegex =
      Some \<lparr>before = pre', matched = js ''Converted Amount: '' @ e1 @ [46] @ e2,
            group1 = Some (e1 @ [46] @ e2), after = post'\<rparr>"
    unfolding amountRegex_def using am by (rule stringMatch_first_SomeI)
  show ?returns
    using r parseFloat_number [OF rt(2,4,5)] parseFloat_number [OF am(2,4,5)]
    by (simp add: extractOutput_def m1 m2 groupText_def)
qed

section \<open>Both numbers or none\<close>

lemmas extract_eval_defs =
  extractOutput_def cleanOutput_def stringReplaceEmpty_def stringMatch_def sentinelRegex_def
  rateRegex_def amountRegex_def numberGroup_def literal_def js_def groupText_def
  parseFloat_def isWhiteSpace_def startsWith_def isDigit_def decimalValue_def
  digitsValue_def exponentFactor_def isLineTerminator_def

text \<open>
  Claim C5. When the rate pattern or the amount pattern does not match the cleaned
  text, \<open>extractOutput\<close> logs one error line and ends the process with status 1. A
  result is returned only when both patterns matched, and it holds the two numbers read
  from the two captures: the extractor returns both numbers or exits, and does nothing
  else.
\<close>

theorem extractOutput_all_or_nothing:
  "(stringMatch (cleanOutput stdout) rateRegex = None
      \<or> stringMatch (cleanOutput stdout) amountRegex = None
    \<longrightarrow> extractOutput rd stdout =
          (Exited 1,
           [ConsoleError [js ''Failed to extract conversion rate or converted amount'']]))
   \<and> (\<forall>r t. extractOutput rd stdout = (Returned r, t)
        \<longrightarrow> (\<exists>m1 m2 v1 v2.
               stringMatch (cleanOutput stdout) rateRegex = Some m1 \<and> group1 m1 = Some v1
               \<and> stringMatch (cleanOutput stdout) amountRegex = Some m2 \<and> group1 m2 = Some v2
               \<and> r = \<lparr>rate = parseFloat rd v1, convertedAmount = parseFloat rd v2\<rparr>
               \<and> t = []))
   \<and> (\<exists>r. extractOutput rd stdout = (Returned r, [])
          \<or> extractOutput rd stdout =
              (Exited 1,
               [ConsoleError [js ''Failed to extract conversion rate or converted amount'']]))"
proof -
  have fails: "stringMatch (cleanOutput stdout) rateRegex = None
      \<or> stringMatch (cleanOutput stdout) amountRegex = None
    \<longrightarrow> extractOutput rd stdout =
          (Exited 1,
           [ConsoleError [js ''Failed to extract conversion rate or converted amount'']])"
    by (auto simp add: extractOutput_def split: option.splits)
  have returns: "\<forall>r t. extractOutput rd stdout = (Returned r, t)
        \<longrightarrow> (\<exists>m1 m2 v1 v2.
               stringMatch (cleanOutput stdout) rateRegex = Some m1 \<and> group1 m1 = Some v1
               \<and> stringMatch (cleanOutput stdout) amountRegex = Some m2 \<and> group1 m2 = Some v2
               \<and> r = \<lparr>rate = parseFloat rd v1, convertedAmount = parseFloat rd v2\<rparr>
               \<and> t = [])"
  proof (intro allI impI)
    fix r t
    assume ret: "extractOutput rd stdout = (Returned r, t)"
    then obtain m1 m2 where
      m1: "stringMatch (cleanOutput stdout) rateRegex = Some m1" and
      m2: "stringMatch (cleanOutput stdout) amountRegex = Some m2"
      by (auto simp add: extractOutput_def split: option.splits)
    from stringMatch_labelled_SomeD [OF m1 [unfolded rateRegex_def]]
    obtain v1 where v1: "group1 m1 = Some v1" by blast
    from stringMatch_labelled_SomeD [OF m2 [unfolded amountRegex_def]]
    obtain v2 where v2: "group1 m2 = Some v2" by blast
    have "r = \<lparr>rate = parseFloat rd v1, convertedAmount = parseFloat rd v2\<rparr> \<and> t = []"
      using ret m1 m2 v1 v2 by (simp add: extractOutput_def groupText_def)
    with m1 m2 v1 v2 show "\<exists>m1 m2 v1 v2.
               stringMatch (cleanOutput stdout) rateRegex = Some m1 \<and> group1 m1 = Some v1
               \<and> stringMatch (cleanOutput stdout) amountRegex = Some m2 \<and> group1 m2 = Some v2
               \<and> r = \<lparr>rate = parseFloat rd v1, convertedAmount = parseFloat rd v2\<rparr>
               \<and> t = []"
      by blast
  qed
  have either: "\<exists>r. extractOutput rd stdout = (Returned r, [])
          \<or> extractOutput rd stdout =
              (Exited 1,
               [ConsoleError [js ''Failed to extract conversion rate or converted amount'']])"
    by (auto simp add: extractOutput_def split: option.splits)
  from fails returns either show ?thesis by blast
qed

theorem extractOutput_all_or_nothing_witness:
  "stringMatch (cleanOutput (js ''Uncertain conversion rate: 0.85'')) amountRegex = None
   \<and> extractOutput Finite (js ''Uncertain conversion rate: 0.85'') =
       (Exited 1, [ConsoleError [js ''Failed to extract conversion rate or converted amount'']])
   \<and> extractOutput Finite
        (js ''Uncertain conversion rate: 0.85\<newline>Converted Amount: 85.00'') =
       (Returned \<lparr>rate = Finite (17 / 20), convertedAmount = Finite 85\<rparr>, [])
   \<and> (\<exists>m1 m2 v1 v2.
         stringMatch
           (cleanOutput (js ''Uncertain conversion rate: 0.85\<newline>Converted Amount: 85.00''))
           rateRegex = Some m1 \<and> group1 m1 = Some v1
         \<and> stringMatch
           (cleanOutput (js ''Uncertain conversion rate: 0.85\<newline>Converted Amount: 85.00''))
           amountRegex = Some m2 \<and> group1 m2 = Some v2
         \<and> parseFloat Finite v1 = Finite (17 / 20) \<and> parseFloat Finite v2 = Finite 85)"
proof -
  let ?bad = "js ''Uncertain conversion rate: 0.85''"
  let ?good = "js ''Uncertain conversion rate: 0.85\<newline>Converted Amount: 85.00''"
  have none: "stringMatch (cleanOutput ?bad) amountRegex = None"
    by (simp add: cleanOutput_def stringReplaceEmpty_def stringMatch_def sentinelRegex_def
        amountRegex_def numberGroup_def literal_def js_def)
  then have exits: "extractOutput Finite ?bad =
       (Exited 1, [ConsoleError [js ''Failed to extract conversion rate or converted amount'']])"
    using extractOutput_all_or_nothing [of ?bad Finite] by blast
  have ret: "extractOutput Finite ?good =
       (Returned \<lparr>rate = Finite (17 / 20), convertedAmount = Finite 85\<rparr>, [])"
    by (simp add: extract_eval_defs)
  from extractOutput_all_or_nothing [of ?good Finite, THEN conjunct2, THEN conjunct1,
      rule_format, OF ret]
  obtain m1 m2 v1 v2 where
    "stringMatch (cleanOutput ?good) rateRegex = Some m1" "group1 m1 = Some v1"
    "stringMatch (cleanOutput ?good) amountRegex = Some m2" "group1 m2 = Some v2"
    "\<lparr>rate = Finite (17 / 20), convertedAmount = Finite 85\<rparr> =
       \<lparr>rate = parseFloat Finite v1, convertedAmount = parseFloat Finite v2\<rparr>"
    by blast
  then have "\<exists>m1 m2 v1 v2.
         stringMatch (cleanOutput ?good) rateRegex = Some m1 \<and> group1 m1 = Some v1
         \<and> stringMatch (cleanOutput ?good) amountRegex = Some m2 \<and> group1 m2 = Some v2
         \<and> parseFloat Finite v1 = Finite (17 / 20) \<and> parseFloat Finite v2 = Finite 85"
    by auto
  with none exits ret show ?thesis by blast
qed

section \<open>What the patterns accept and what the cleaning removes\<close>

text \<open>
  Against claim C10 as stated: both values are in scientific notation, and the
  extractor does not exit. It returns the mantissas \<open>1.5\<close> and \<open>8.5\<close> (both are
  doubles, so that every rounding leaves them as they are).
\<close>

theorem extractOutput_mantissa_counterexample:
  "extractOutput Finite
     (js ''Uncertain conversion rate: 1.5e-7\<newline>Converted Amount: 8.5e1'') =
     (Returned \<lparr>rate = Finite (3 / 2), convertedAmount = Finite (17 / 2)\<rparr>, [])"
  by (simp add: extract_eval_defs)

text \<open>
  Claim C10, as amended. A pattern matches a text exactly when, somewhere in it, the
  label is directly followed by one or more digits, a dot and a digit. When the cleaned
  text has no such place for the rate or for the amount, the extractor ends the process
  with status 1. It returns exactly when both labels have such a place, and each number
  returned is then the one at the leftmost such place of its label, read with all the
  digits of its fraction; what follows the fraction is ignored. So a value without a
  fractional part, a negative value and an exponent on a whole number are rejected, as in
  the five texts below, and an exponent after a fraction is not: of \<open>1.575e-7\<close> the
  mantissa \<open>1.575\<close> is returned.
\<close>

theorem number_patterns_shape:
  "((stringMatch input rateRegex \<noteq> None) =
      (\<exists>pre d c post. input = pre @ js ''Uncertain conversion rate: '' @ d @ [46, c] @ post
         \<and> d \<noteq> [] \<and> list_all isDigit d \<and> isDigit c))
   \<and> ((stringMatch input amountRegex \<noteq> None) =
      (\<exists>pre d c post. input = pre @ js ''Converted Amount: '' @ d @ [46, c] @ post
         \<and> d \<noteq> [] \<and> list_all isDigit d \<and> isDigit c))
   \<and> ((\<nexists>pre d c post.
          cleanOutput stdout = pre @ js ''Uncertain conversion rate: '' @ d @ [46, c] @ post
          \<and> d \<noteq> [] \<and> list_all isDigit d \<and> isDigit c)
       \<or> (\<nexists>pre d c post.
          cleanOutput stdout = pre @ js ''Converted Amount: '' @ d @ [46, c] @ post
          \<and> d \<noteq> [] \<and> list_all isDigit d \<and> isDigit c)
      \<longrightarrow> extractOutput rd stdout =
            (Exited 1,
             [ConsoleError [js ''Failed to extract conversion rate or converted amount'']]))
   \<and> ((extractOutput rd stdout = (Returned r, t)) =
      (\<exists>pre d1 d2 post pre' e1 e2 post'.
         cleanOutput stdout = pre @ js ''Uncertain conversion rate: '' @ d1 @ [46] @ d2 @ post
         \<and> d1 \<noteq> [] \<and> d2 \<noteq> [] \<and> list_all isDigit d1 \<and> list_all isDigit d2
         \<and> takeWhile isDigit post = []
         \<and> (\<nexists>p e c q.
               cleanOutput stdout = p @ js ''Uncertain conversion rate: '' @ e @ [46, c] @ q
               \<and> e \<noteq> [] \<and> list_all isDigit e \<and> isDigit c \<and> length p < length pre)
         \<and> cleanOutput stdout = pre' @ js ''Converted Amount: '' @ e1 @ [46] @ e2 @ post'
         \<and> e1 \<noteq> [] \<and> e2 \<noteq> [] \<and> list_all isDigit e1 \<and> list_all isDigit e2
         \<and> takeWhile isDigit post' = []
         \<and> (\<nexists>p e c q.
               cleanOutput stdout = p @ js ''Converted Amount: '' @ e @ [46, c] @ q
               \<and> e \<noteq> [] \<and> list_all isDigit e \<and> isDigit c \<and> length p < length pre')
         \<and> r = \<lparr>rate = rd (decimalValue d1 d2), convertedAmount = rd (decimalValue e1 e2)\<rparr>
         \<and> t = []))
   \<and> extractOutput rd
        (js ''Uncertain conversion rate: 1.575e-7\<newline>Converted Amount: 8.5e1'') =
       (Returned \<lparr>rate = rd (1575 / 1000), convertedAmount = rd (85 / 10)\<rparr>, [])
   \<and> fst (extractOutput rd
        (js ''Uncertain conversion rate: 0.85\<newline>Converted Amount: 85'')) = Exited 1
   \<and> fst (extractOutput rd
        (js ''Uncertain conversion rate: 0.85\<newline>Converted Amount: -85.00'')) = Exited 1
   \<and> fst (extractOutput rd
        (js ''Uncertain conversion rate: 0.85\<newline>Converted Amount: 85e0'')) = Exited 1
   \<and> fst (extractOutput rd
        (js ''Uncertain conversion rate: 1\<newline>Converted Amount: 85.00'')) = Exited 1
   \<and> fst (extractOutput rd
        (js ''Uncertain conversion rate: -0.85\<newline>Converted Amount: 85.00'')) = Exited 1"
proof -
  have rate: "\<And>s. (stringMatch s rateRegex \<noteq> None) =
      (\<exists>pre d c post. s = pre @ js ''Uncertain conversion rate: '' @ d @ [46, c] @ post
         \<and> d \<noteq> [] \<and> list_all isDigit d \<and> isDigit c)"
    unfolding rateRegex_def by (rule stringMatch_labelled_iff)
  have amount: "\<And>s. (stringMatch s amountRegex \<noteq> None) =
      (\<exists>pre d c post. s = pre @ js ''Converted Amount: '' @ d @ [46, c] @ post
         \<and> d \<noteq> [] \<and> list_all isDigit d \<and> isDigit c)"
    unfolding amountRegex_def by (rule stringMatch_labelled_iff)
  have fails: "(\<nexists>pre d c post.
          cleanOutput stdout = pre @ js ''Uncertain conversion rate: '' @ d @ [46, c] @ post
          \<and> d \<noteq> [] \<and> list_all isDigit d \<and> isDigit c)
       \<or> (\<nexists>pre d c post.
          cleanOutput stdout = pre @ js ''Converted Amount: '' @ d @ [46, c] @ post
          \<and> d \<noteq> [] \<and> list_all isDigit d \<and> isDigit c)
      \<longrightarrow> extractOutput rd stdout =
            (Exited 1,
             [ConsoleError [js ''Failed to extract conversion rate or converted amount'']])"
  proof
    assume "(\<nexists>pre d c post.
          cleanOutput stdout = pre @ js ''Uncertain conversion rate: '' @ d @ [46, c] @ post
          \<and> d \<noteq> [] \<and> list_all isDigit d \<and> isDigit c)
       \<or> (\<nexists>pre d c post.
          cleanOutput stdout = pre @ js ''Converted Amount: '' @ d @ [46, c] @ post
          \<and> d \<noteq> [] \<and> list_all isDigit d \<and> isDigit c)"
    then have "stringMatch (cleanOutput stdout) rateRegex = None
        \<or> stringMatch (cleanOutput stdout) amountRegex = None"
      using rate [of "cleanOutput stdout"] amount [of "cleanOutput stdout"] by blast
    then show "extractOutput rd stdout =
            (Exited 1,
             [ConsoleError [js ''Failed to extract conversion rate or converted amount'']])"
      by (auto simp add: extractOutput_def split: option.splits)
  qed
  note returns = extractOutput_returns_iff [of rd stdout r t]
  have sci: "extractOutput rd
        (js ''Uncertain conversion rate: 1.575e-7\<newline>Converted Amount: 8.5e1'') =
       (Returned \<lparr>rate = rd (1575 / 1000), convertedAmount = rd (85 / 10)\<rparr>, [])"
    by (simp add: extract_eval_defs)
  have ex1: "fst (extractOutput rd
        (js ''Uncertain conversion rate: 0.85\<newline>Converted Amount: 85'')) = Exited 1"
    by (simp add: extract_eval_defs)
  have ex2: "fst (extractOutput rd
        (js ''Uncertain conversion rate: 0.85\<newline>Converted Amount: -85.00'')) = Exited 1"
    by (simp add: extract_eval_defs)
  have ex3: "fst (extractOutput rd
        (js ''Uncertain conversion rate: 0.85\<newline>Converted Amount: 85e0'')) = Exited 1"
    by (simp add: extract_eval_defs)
  have ex4: "fst (extractOutput rd
        (js ''Uncertain conversion rate: 1\<newline>Converted Amount: 85.00'')) = Exited 1"
    by (simp add: extract_eval_defs)
  have ex5: "fst (extractOutput rd
        (js ''Uncertain conversion rate: -0.85\<newline>Converted Amount: 85.00'')) = Exited 1"
    by (simp add: extract_eval_defs)
  from rate [of input] amount [of input] fails returns sci ex1 ex2 ex3 ex4 ex5
  show ?thesis by (intro conjI)
qed

theorem number_patterns_shape_witness:
  "stringMatch (cleanOutput (js ''Uncertain conversion rate: 0.85\<newline>Converted Amount: 85''))
     amountRegex = None
   \<and> extractOutput Finite (js ''Uncertain conversion rate: 0.85\<newline>Converted Amount: 85'') =
       (Exited 1, [ConsoleError [js ''Failed to extract conversion rate or converted amount'']])
   \<and> cleanOutput (js ''Uncertain conversion rate: 1.575e-7\<newline>Converted Amount: 8.5e1'') =
       [] @ js ''Uncertain conversion rate: '' @ js ''1'' @ [46] @ js ''575''
         @ js ''e-7\<newline>Converted Amount: 8.5e1''
   \<and> cleanOutput (js ''Uncertain conversion rate: 1.575e-7\<newline>Converted Amount: 8.5e1'') =
       js ''Uncertain conversion rate: 1.575e-7\<newline>'' @ js ''Converted Amount: '' @ js ''8''
         @ [46] @ js ''5'' @ js ''e1''
   \<and> extractOutput Finite
        (js ''Uncertain conversion rate: 1.575e-7\<newline>Converted Amount: 8.5e1'') =
       (Returned \<lparr>rate = Finite (63 / 40), convertedAmount = Finite (17 / 2)\<rparr>, [])"
proof -
  let ?bad = "js ''Uncertain conversion rate: 0.85\<newline>Converted Amount: 85''"
  let ?sci = "js ''Uncertain conversion rate: 1.575e-7\<newline>Converted Amount: 8.5e1''"
  let ?line1 = "js ''Uncertain conversion rate: 1.575e-7\<newline>''"
  note shape_bad = number_patterns_shape [of "cleanOutput ?bad" ?bad Finite]
  have none: "stringMatch (cleanOutput ?bad) amountRegex = None"
    by (simp add: cleanOutput_def stringReplaceEmpty_def stringMatch_def sentinelRegex_def
        amountRegex_def numberGroup_def literal_def js_def isDigit_def)
  then have "\<nexists>pre d c post.
          cleanOutput ?bad = pre @ js ''Converted Amount: '' @ d @ [46, c] @ post
          \<and> d \<noteq> [] \<and> list_all isDigit d \<and> isDigit c"
    using shape_bad [THEN conjunct2, THEN conjunct1] by simp
  then have exits: "extractOutput Finite ?bad =
       (Exited 1, [ConsoleError [js ''Failed to extract conversion rate or converted amount'']])"
    using shape_bad [THEN conjunct2, THEN conjunct2, THEN conjunct1] by blast
  have r1: "cleanOutput ?sci =
       [] @ js ''Uncertain conversion rate: '' @ js ''1'' @ [46] @ js ''575''
         @ js ''e-7\<newline>Converted Amount: 8.5e1''"
    by (simp add: cleanOutput_def stringReplaceEmpty_def sentinelRegex_def literal_def js_def)
  have r2: "js ''1'' \<noteq> []" "js ''575'' \<noteq> []" "list_all isDigit (js ''1'')"
    "list_all isDigit (js ''575'')"
    "takeWhile isDigit (js ''e-7\<newline>Converted Amount: 8.5e1'') = []"
    by (simp_all add: js_def isDigit_def)
  have r3: "\<nexists>p e c q.
      cleanOutput ?sci = p @ js ''Uncertain conversion rate: '' @ e @ [46, c] @ q
      \<and> e \<noteq> [] \<and> list_all isDigit e \<and> isDigit c \<and> length p < length ([] :: jsstring)"
    by simp
  have a1: "cleanOutput ?sci =
       ?line1 @ js ''Converted Amount: '' @ js ''8'' @ [46] @ js ''5'' @ js ''e1''"
    by (simp add: cleanOutput_def stringReplaceEmpty_def sentinelRegex_def literal_def js_def)
  have a2: "js ''8'' \<noteq> []" "js ''5'' \<noteq> []" "list_all isDigit (js ''8'')"
    "list_all isDigit (js ''5'')" "takeWhile isDigit (js ''e1'') = []"
    by (simp_all add: js_def isDigit_def)
  have m2: "stringMatch (cleanOutput ?sci) (literal ''Converted Amount: '' @ numberGroup) =
      Some \<lparr>before = ?line1, matched = js ''Converted Amount: 8.5'',
            group1 = Some (js ''8.5''), after = js ''e1''\<rparr>"
    by (simp add: cleanOutput_def stringReplaceEmpty_def stringMatch_def sentinelRegex_def
        numberGroup_def literal_def js_def isDigit_def)
  have a3: "\<nexists>p e c q.
      cleanOutput ?sci = p @ js ''Converted Amount: '' @ e @ [46, c] @ q
      \<and> e \<noteq> [] \<and> list_all isDigit e \<and> isDigit c \<and> length p < length ?line1"
  proof -
    from stringMatch_first_SomeD [OF m2] have "\<nexists>p e c q.
      cleanOutput ?sci = p @ js ''Converted Amount: '' @ e @ [46, c] @ q
      \<and> e \<noteq> [] \<and> list_all isDigit e \<and> isDigit c
      \<and> length p < length (before \<lparr>before = ?line1, matched = js ''Converted Amount: 8.5'',
            group1 = Some (js ''8.5''), after = js ''e1''\<rparr>)"
      by blast
    then show ?thesis by simp
  qed
  have places: "\<exists>pre d1 d2 post pre' e1 e2 post'.
         cleanOutput ?sci = pre @ js ''Uncertain conversion rate: '' @ d1 @ [46] @ d2 @ post
         \<and> d1 \<noteq> [] \<and> d2 \<noteq> [] \<and> list_all isDigit d1 \<and> list_all isDigit d2
         \<and> takeWhile isDigit post = []
         \<and> (\<nexists>p e c q.
               cleanOutput ?sci = p @ js ''Uncertain conversion rate: '' @ e @ [46, c] @ q
               \<and> e \<noteq> [] \<and> list_all isDigit e \<and> isDigit c \<and> length p < length pre)
         \<and> cleanOutput ?sci = pre' @ js ''Converted Amount: '' @ e1 @ [46] @ e2 @ post'
         \<and> e1 \<noteq> [] \<and> e2 \<noteq> [] \<and> list_all isDigit e1 \<and> list_all isDigit e2
         \<and> takeWhile isDigit post' = []
         \<and> (\<nexists>p e c q.
               cleanOutput ?sci = p @ js ''Converted Amount: '' @ e @ [46, c] @ q
               \<and> e \<noteq> [] \<and> list_all isDigit e \<and> isDigit c \<and> length p < length pre')
         \<and> \<lparr>rate = Finite (decimalValue (js ''1'') (js ''575'')),
              convertedAmount = Finite (decimalValue (js ''8'') (js ''5''))\<rparr> =
             \<lparr>rate = Finite (decimalValue d1 d2), convertedAmount = Finite (decimalValue e1 e2)\<rparr>
         \<and> ([] :: event list) = []"
    using r1 r2 r3 a1 a2 a3 by blast
  have "extractOutput Finite ?sci =
      (Returned \<lparr>rate = Finite (decimalValue (js ''1'') (js ''575'')),
                 convertedAmount = Finite (decimalValue (js ''8'') (js ''5''))\<rparr>, [])"
    using places
      number_patterns_shape
        [where stdout = ?sci and rd = Finite and t = "[]"
           and r = "\<lparr>rate = Finite (decimalValue (js ''1'') (js ''575'')),
                     convertedAmount = Finite (decimalValue (js ''8'') (js ''5''))\<rparr>",
         THEN conjunct2, THEN conjunct2, THEN conjunct2, THEN conjunct1]
    by blast
  then have ret: "extractOutput Finite ?sci =
      (Returned \<lparr>rate = Finite (63 / 40), convertedAmount = Finite (17 / 2)\<rparr>, [])"
    by (simp add: decimalValue_def digitsValue_def js_def)
  from none exits r1 a1 ret show ?thesis by blast
qed

text \<open>
  Against claim C1 as stated: the marker stands on the first line, as in the output of
  the remote service. Cleaning keeps the second line and its own marker, so that the
  cleaned text is not the part before the first \<open>Ux\<close>, and the extractor returns both
  numbers. On the part before the first \<open>Ux\<close> alone it would exit.
\<close>

theorem cleanOutput_keeps_later_lines_counterexample:
  "cleanOutput
     (js ''Uncertain conversion rate: 0.85Ux01\<newline>Converted Amount: 85.00Ux02'') =
     js ''Uncertain conversion rate: 0.85\<newline>Converted Amount: 85.00Ux02''
   \<and> cleanOutput
     (js ''Uncertain conversion rate: 0.85Ux01\<newline>Converted Amount: 85.00Ux02'') \<noteq>
     js ''Uncertain conversion rate: 0.85''
   \<and> extractOutput Finite
     (js ''Uncertain conversion rate: 0.85Ux01\<newline>Converted Amount: 85.00Ux02'') =
     (Returned \<lparr>rate = Finite (17 / 20), convertedAmount = Finite 85\<rparr>, [])
   \<and> extractOutput Finite (js ''Uncertain conversion rate: 0.85'') =
     (Exited 1, [ConsoleError [js ''Failed to extract conversion rate or converted amount'']])"
  by (simp add: extract_eval_defs)

text \<open>
  Claim C1, as amended. A text without the marker \<open>Ux\<close> is left as it is. Otherwise
  the first \<open>Ux\<close> is cut out together with the rest of its line, up to the next line
  terminator, which stays, as does everything after it. The two patterns are then
  applied to the text cleaned once: when both match it, the extractor returns the numbers
  parsed from the two captures, and when one of them does not, it exits with status 1.
  Of the two closed texts, the first has the marker on two lines, and only the first line
  is cut; in the second the cut takes the amount away.
\<close>

theorem cleanOutput_cuts_rest_of_line:
  "(\<not> sublist (js ''Ux'') stdout \<longrightarrow> cleanOutput stdout = stdout)
   \<and> (\<not> sublist (js ''Ux'') (pre @ js ''U'')
      \<longrightarrow> cleanOutput (pre @ js ''Ux'' @ rest) =
            pre @ dropWhile (\<lambda>c. \<not> isLineTerminator c) rest)
   \<and> (\<forall>m1 m2. stringMatch (cleanOutput stdout) rateRegex = Some m1
          \<and> stringMatch (cleanOutput stdout) amountRegex = Some m2
        \<longrightarrow> (\<exists>v1 v2. group1 m1 = Some v1 \<and> group1 m2 = Some v2
               \<and> extractOutput rd stdout =
                   (Returned \<lparr>rate = parseFloat rd v1,
                              convertedAmount = parseFloat rd v2\<rparr>, [])))
   \<and> (stringMatch (cleanOutput stdout) rateRegex = None
        \<or> stringMatch (cleanOutput stdout) amountRegex = None
      \<longrightarrow> extractOutput rd stdout =
            (Exited 1,
             [ConsoleError [js ''Failed to extract conversion rate or converted amount'']]))
   \<and> extractOutput rd
        (js ''Ux\<newline>Uncertain conversion rate: 0.85Ux Converted Amount: 85.00'') =
       (Returned \<lparr>rate = rd (85 / 100), convertedAmount = rd 85\<rparr>, [])
   \<and> extractOutput rd (js ''Uncertain conversion rate: 0.85Ux Converted Amount: 85.00'') =
       (Exited 1,
        [ConsoleError [js ''Failed to extract conversion rate or converted amount'']])"
proof -
  have both: "\<forall>m1 m2. stringMatch (cleanOutput stdout) rateRegex = Some m1
          \<and> stringMatch (cleanOutput stdout) amountRegex = Some m2
        \<longrightarrow> (\<exists>v1 v2. group1 m1 = Some v1 \<and> group1 m2 = Some v2
               \<and> extractOutput rd stdout =
                   (Returned \<lparr>rate = parseFloat rd v1,
                              convertedAmount = parseFloat rd v2\<rparr>, []))"
  proof (intro allI impI)
    fix m1 m2
    assume "stringMatch (cleanOutput stdout) rateRegex = Some m1
          \<and> stringMatch (cleanOutput stdout) amountRegex = Some m2"
    then have m1: "stringMatch (cleanOutput stdout) rateRegex = Some m1"
      and m2: "stringMatch (cleanOutput stdout) amountRegex = Some m2" by simp_all
    from stringMatch_labelled_SomeD [OF m1 [unfolded rateRegex_def]]
    obtain v1 where v1: "group1 m1 = Some v1" by blast
    from stringMatch_labelled_SomeD [OF m2 [unfolded amountRegex_def]]
    obtain v2 where v2: "group1 m2 = Some v2" by blast
    have "extractOutput rd stdout =
        (Returned \<lparr>rate = parseFloat rd v1, convertedAmount = parseFloat rd v2\<rparr>, [])"
      using m1 m2 v1 v2 by (simp add: extractOutput_def groupText_def)
    with v1 v2 show "\<exists>v1 v2. group1 m1 = Some v1 \<and> group1 m2 = Some v2
               \<and> extractOutput rd stdout =
                   (Returned \<lparr>rate = parseFloat rd v1,
                              convertedAmount = parseFloat rd v2\<rparr>, [])"
      by blast
  qed
  have fails: "stringMatch (cleanOutput stdout) rateRegex = None
        \<or> stringMatch (cleanOutput stdout) amountRegex = None
      \<longrightarrow> extractOutput rd stdout =
            (Exited 1,
             [ConsoleError [js ''Failed to extract conversion rate or converted amount'']])"
    by (auto simp add: extractOutput_def split: option.splits)
  have two: "extractOutput rd
        (js ''Ux\<newline>Uncertain conversion rate: 0.85Ux Converted Amount: 85.00'') =
       (Returned \<lparr>rate = rd (85 / 100), convertedAmount = rd 85\<rparr>, [])"
    by (simp add: extract_eval_defs)
  have one: "extractOutput rd (js ''Uncertain conversion rate: 0.85Ux Converted Amount: 85.00'') =
       (Exited 1,
        [ConsoleError [js ''Failed to extract conversion rate or converted amount'']])"
    by (simp add: extract_eval_defs)
  from cleanOutput_no_sentinel [of stdout] cleanOutput_first_sentinel [of pre rest]
    both fails two one
  show ?thesis by blast
qed

theorem cleanOutput_cuts_rest_of_line_witness:
  "\<not> sublist (js ''Ux'') (js ''Uncertain conversion rate: 0.85'' @ js ''U'')
   \<and> cleanOutput (js ''Uncertain conversion rate: 0.85'' @ js ''Ux''
        @ js ''01\<newline>Converted Amount: 85.00Ux02'') =
      js ''Uncertain conversion rate: 0.85\<newline>Converted Amount: 85.00Ux02''
   \<and> \<not> sublist (js ''Ux'') (js ''Converted Amount: 85.00'')
   \<and> cleanOutput (js ''Converted Amount: 85.00'') = js ''Converted Amount: 85.00''
   \<and> stringMatch
        (cleanOutput (js ''Uncertain conversion rate: 0.85Ux01\<newline>Converted Amount: 85.00Ux02''))
        rateRegex =
      Some \<lparr>before = [], matched = js ''Uncertain conversion rate: 0.85'',
            group1 = Some (js ''0.85''), after = js ''\<newline>Converted Amount: 85.00Ux02''\<rparr>
   \<and> stringMatch
        (cleanOutput (js ''Uncertain conversion rate: 0.85Ux01\<newline>Converted Amount: 85.00Ux02''))
        amountRegex =
      Some \<lparr>before = js ''Uncertain conversion rate: 0.85\<newline>'',
            matched = js ''Converted Amount: 85.00'',
            group1 = Some (js ''85.00''), after = js ''Ux02''\<rparr>
   \<and> extractOutput Finite
        (js ''Uncertain conversion rate: 0.85Ux01\<newline>Converted Amount: 85.00Ux02'') =
      (Returned \<lparr>rate = Finite (17 / 20), convertedAmount = Finite 85\<rparr>, [])
   \<and> stringMatch
        (cleanOutput (js ''Uncertain conversion rate: 0.85Ux Converted Amount: 85.00''))
        amountRegex = None
   \<and> extractOutput Finite (js ''Uncertain conversion rate: 0.85Ux Converted Amount: 85.00'') =
      (Exited 1, [ConsoleError [js ''Failed to extract conversion rate or converted amount'']])"
proof -
  let ?two = "js ''Uncertain conversion rate: 0.85Ux01\<newline>Converted Amount: 85.00Ux02''"
  let ?one = "js ''Uncertain conversion rate: 0.85Ux Converted Amount: 85.00''"
  note cut = cleanOutput_cuts_rest_of_line
      [of "js ''Converted Amount: 85.00''" "js ''Uncertain conversion rate: 0.85''"
          "js ''01\<newline>Converted Amount: 85.00Ux02''"]
  have a: "\<not> sublist (js ''Ux'') (js ''Uncertain conversion rate: 0.85'' @ js ''U'')"
    by (simp add: js_def sublist_Cons_right)
  have b: "\<not> sublist (js ''Ux'') (js ''Converted Amount: 85.00'')"
    by (simp add: js_def sublist_Cons_right)
  have c: "cleanOutput (js ''Uncertain conversion rate: 0.85'' @ js ''Ux''
        @ js ''01\<newline>Converted Amount: 85.00Ux02'') =
      js ''Uncertain conversion rate: 0.85\<newline>Converted Amount: 85.00Ux02''"
    using a cut [THEN conjunct2, THEN conjunct1]
    by (simp add: js_def isLineTerminator_def)
  have d: "cleanOutput (js ''Converted Amount: 85.00'') = js ''Converted Amount: 85.00''"
    using b cut [THEN conjunct1] by blast
  have m1: "stringMatch (cleanOutput ?two) rateRegex =
      Some \<lparr>before = [], matched = js ''Uncertain conversion rate: 0.85'',
            group1 = Some (js ''0.85''), after = js ''\<newline>Converted Amount: 85.00Ux02''\<rparr>"
    by (simp add: cleanOutput_def stringReplaceEmpty_def stringMatch_def sentinelRegex_def
        rateRegex_def numberGroup_def literal_def js_def isDigit_def isLineTerminator_def)
  have m2: "stringMatch (cleanOutput ?two) amountRegex =
      Some \<lparr>before = js ''Uncertain conversion rate: 0.85\<newline>'',
            matched = js ''Converted Amount: 85.00'',
            group1 = Some (js ''85.00''), after = js ''Ux02''\<rparr>"
    by (simp add: cleanOutput_def stringReplaceEmpty_def stringMatch_def sentinelRegex_def
        amountRegex_def numberGroup_def literal_def js_def isDigit_def isLineTerminator_def)
  from cleanOutput_cuts_rest_of_line
      [where stdout = ?two and rd = Finite, THEN conjunct2, THEN conjunct2, THEN conjunct1,
       rule_format, OF conjI [OF m1 m2]]
  have "extractOutput Finite ?two =
      (Returned \<lparr>rate = parseFloat Finite (js ''0.85''),
                 convertedAmount = parseFloat Finite (js ''85.00'')\<rparr>, [])"
    by simp
  then have e: "extractOutput Finite ?two =
      (Returned \<lparr>rate = Finite (17 / 20), convertedAmount = Finite 85\<rparr>, [])"
    by (simp add: parseFloat_def isWhiteSpace_def startsWith_def isDigit_def decimalValue_def
        digitsValue_def exponentFactor_def js_def)
  have none: "stringMatch (cleanOutput ?one) amountRegex = None"
    by (simp add: cleanOutput_def stringReplaceEmpty_def stringMatch_def sentinelRegex_def
        amountRegex_def numberGroup_def literal_def js_def isDigit_def isLineTerminator_def)
  then have f: "extractOutput Finite ?one =
      (Exited 1, [ConsoleError [js ''Failed to extract conversion rate or converted amount'']])"
    using cleanOutput_cuts_rest_of_line
      [where stdout = ?one and rd = Finite, THEN conjunct2, THEN conjunct2, THEN conjunct2,
       THEN conjunct1]
    by blast
  from a b c d m1 m2 e none f show ?thesis by blast
qed

end
